theory Spec2Isabelle
  imports Complex_Main
begin

section \<open>Values, errors and the outside world\<close>

text \<open>
  The service of \<^verbatim>\<open>nodejs/server.js\<close> is an Express application: two middlewares (access
  log with injected latency, query-complexity interception), five routes, and a startup
  routine. The embedding below follows the source function by function. Requests are
  handled one at a time (awaits are run to completion before the next request starts);
  interleavings of concurrent requests are not part of this model.

  A JavaScript Number is \<open>NaN\<close>, an infinity or the exact value of a double. Sums,
  differences of clock readings and decimal cost figures are kept exact; where the
  program multiplies doubles or converts a digit string, the rounding to the nearest
  double is computed (\<open>floor_nearest_double\<close>, \<open>to_double\<close>).

  Text that comes from the client is a sequence of UTF-16 code units, as a JavaScript
  string is; the program's own literals and messages are \<open>string\<close>s.
\<close>

datatype jsnum = NaN | Infinity | NegInfinity | Num rat

type_synonym jsstring = "nat list"

definition ascii :: "string \<Rightarrow> jsstring" where
  "ascii s = map of_char s"

datatype jsval = JNull | JNum jsnum | JStr string

datatype error = Error string | TypeError string | ReferenceError string

fun err_message :: "error \<Rightarrow> string" where
  "err_message (Error m) = m"
| "err_message (TypeError m) = m"
| "err_message (ReferenceError m) = m"

type_synonym row = "(string \<times> jsval) list"

record qresult =
  rows :: "row list"
  rowCount :: "nat option"

text \<open>
  Everything the program reads from outside is a field of the environment:
  the \<open>k\<close>-th draw of \<^verbatim>\<open>Math.random()\<close> (and of the faker generators), the \<open>k\<close>-th reading
  of \<^verbatim>\<open>Date.now()\<close>, and the answer of the database to its \<open>k\<close>-th statement. The
  renderings of process statistics, of dates, of non-integer Numbers and of client
  text inside a log line are opaque strings supplied by the environment.
\<close>

record env =
  rnd :: "nat \<Rightarrow> rat"
  clock :: "nat \<Rightarrow> int"
  db :: "nat \<Rightarrow> string \<Rightarrow> jsval list option \<Rightarrow> error + qresult"
  memory_usage_mb :: "nat \<Rightarrow> string"
  cpu_usage_s :: "nat \<Rightarrow> string"
  utc_date :: "nat \<Rightarrow> string"
  fmt_number :: "rat \<Rightarrow> string"
  to_fixed2 :: "rat \<Rightarrow> string"
  show_text :: "jsstring \<Rightarrow> string"
  faker_number :: "nat \<Rightarrow> int \<Rightarrow> int \<Rightarrow> int"
  faker_product :: "nat \<Rightarrow> string"

section \<open>The logger\<close>

text \<open>
  \<^verbatim>\<open>winston.createLogger\<close> is configured with five transports, each with its own level.
  A winston logger hands every record to every transport, and a transport writes the
  record when the record's level is at least as severe as the transport's level
  (npm levels: error = 0, warn = 1, info = 2). Metadata fields of a record, such as
  \<^verbatim>\<open>transport: 'logs/db.log'\<close>, are carried in the record and take no part in this
  dispatch. The line format prints timestamp, level, message and metrics.
\<close>

datatype level = LError | LWarn | LInfo

fun priority :: "level \<Rightarrow> nat" where
  "priority LError = 0"
| "priority LWarn = 1"
| "priority LInfo = 2"

datatype sink = AccessLog | ErrorLog | DbLog | AppLog | Console

fun filename :: "sink \<Rightarrow> string" where
  "filename AccessLog = ''logs/access.log''"
| "filename ErrorLog = ''logs/error.log''"
| "filename DbLog = ''logs/db.log''"
| "filename AppLog = ''logs/app.log''"
| "filename Console = ''console''"

definition transports :: "(sink \<times> level) list" where
  "transports =
     [(AccessLog, LInfo), (ErrorLog, LError), (DbLog, LInfo), (AppLog, LInfo), (Console, LInfo)]"

record log_entry =
  lvl :: level
  message :: string
  metrics :: "(string \<times> jsval) list option"
  meta :: "(string \<times> string) list"

definition admits :: "level \<Rightarrow> level \<Rightarrow> bool" where
  "admits transport_level l = (priority l \<le> priority transport_level)"

section \<open>State\<close>

text \<open>
  \<open>pool.query\<close> is a mutable slot of the shared pool object. Its value is either the
  driver's own method or a wrapper installed by \<open>logQueryComplexity\<close>; a wrapper closes
  over the request it was installed for and over the value the slot had at that moment
  (\<^verbatim>\<open>originalQuery = pool.query.bind(pool)\<close>; binding does not change what the function
  does).
\<close>

datatype capability = Original | Instrumented nat capability

datatype event =
    Query string "jsval list option"
  | Write sink log_entry
  | ConsoleLog string
  | Wait nat

record state =
  pool_query :: capability
  trace :: "event list"
  errorCounter :: nat
  queryComplexity :: "nat \<Rightarrow> (string \<rightharpoonup> jsnum \<times> int)"
  reads :: nat
  draws :: nat
  queries :: nat
  next_req :: nat

definition init :: state where
  "init = \<lparr>pool_query = Original, trace = [], errorCounter = 0,
            queryComplexity = (\<lambda>_. Map.empty), reads = 0, draws = 0, queries = 0,
            next_req = 0\<rparr>"

definition emit :: "event list \<Rightarrow> state \<Rightarrow> state" where
  "emit es s = s\<lparr>trace := trace s @ es\<rparr>"

definition date_now :: "env \<Rightarrow> state \<Rightarrow> int \<times> state" where
  "date_now e s = (clock e (reads s), s\<lparr>reads := Suc (reads s)\<rparr>)"

definition math_random :: "env \<Rightarrow> state \<Rightarrow> rat \<times> state" where
  "math_random e s = (rnd e (draws s), s\<lparr>draws := Suc (draws s)\<rparr>)"


definition sleep :: "nat \<Rightarrow> state \<Rightarrow> state" where
  "sleep ms s = emit [Wait ms] s"

definition logger_log ::
  "level \<Rightarrow> string \<Rightarrow> (string \<times> jsval) list option \<Rightarrow> (string \<times> string) list \<Rightarrow> state \<Rightarrow> state" where
  "logger_log l msg ms fs s =
     emit (map (\<lambda>(snk, tl). Write snk \<lparr>lvl = l, message = msg, metrics = ms, meta = fs\<rparr>)
             (filter (\<lambda>(snk, tl). admits tl l) transports)) s"

definition logger_info ::
  "string \<Rightarrow> (string \<times> jsval) list option \<Rightarrow> (string \<times> string) list \<Rightarrow> state \<Rightarrow> state" where
  "logger_info = logger_log LInfo"

definition logger_error ::
  "string \<Rightarrow> (string \<times> jsval) list option \<Rightarrow> (string \<times> string) list \<Rightarrow> state \<Rightarrow> state" where
  "logger_error = logger_log LError"

section \<open>Rounding to doubles\<close>

text \<open>
  Rounding a natural number to the nearest double, ties to even: numbers below \<open>2^53\<close>
  are doubles; a longer number keeps its 53 leading bits, rounded on the bits dropped;
  what rounds to \<open>2^1024\<close> or more is \<open>Infinity\<close>.
\<close>

fun bits :: "nat \<Rightarrow> nat" where
  "bits n = (if n = 0 then 0 else Suc (bits (n div 2)))"

declare bits.simps [simp del]

definition to_double :: "nat \<Rightarrow> jsnum" where
  "to_double v =
     (if v < 2 ^ 53 then Num (of_nat v)
      else
        (let shift = bits v - 53;
             q = v div 2 ^ shift;
             r = v mod 2 ^ shift;
             half = 2 ^ (shift - 1);
             q' = (if half < r \<or> (r = half \<and> odd q) then q + 1 else q);
             w = q' * 2 ^ shift
         in if 2 ^ 1024 \<le> w then Infinity else Num (of_nat w)))"

fun negate :: "jsnum \<Rightarrow> jsnum" where
  "negate NaN = NaN"
| "negate Infinity = NegInfinity"
| "negate NegInfinity = Infinity"
| "negate (Num x) = Num (- x)"

text \<open>
  \<^verbatim>\<open>Math.floor(a * b)\<close>. The product of two doubles is the double nearest to the exact
  product \<open>x\<close>, ties to even. Below the integer \<open>m\<close> the doubles
  are spaced \<open>p / 2^53\<close> apart, \<open>p\<close> the least power of two that is at least \<open>m\<close>; so
  \<open>x\<close> with \<open>m - 1 \<le> x < m\<close> is rounded up to \<open>m\<close> exactly when it is within half that
  spacing of \<open>m\<close> (at the midpoint too: the significand of \<open>m\<close> is even), and otherwise
  to a double that is still below \<open>m\<close>. This gives the floor of the rounded product for
  \<open>0 \<le> x < 2^52\<close>; the floor and the sum with 10 are exact.
\<close>

definition pow2_ge :: "nat \<Rightarrow> nat" where
  "pow2_ge m = 2 ^ bits (m - 1)"

definition floor_nearest_double :: "rat \<Rightarrow> int" where
  "floor_nearest_double x =
     (let n = \<lfloor>x\<rfloor>; m = n + 1
      in if of_int m - of_nat (pow2_ge (nat m)) / 2 ^ 54 \<le> x then m else n)"

section \<open>Parsing\<close>

definition is_digit :: "char \<Rightarrow> bool" where
  "is_digit c = (c \<in> set ''0123456789'')"

definition digit_val :: "char \<Rightarrow> nat" where
  "digit_val c = of_char c - 48"

definition digits_val :: "string \<Rightarrow> nat" where
  "digits_val ds = foldl (\<lambda>acc c. 10 * acc + digit_val c) 0 ds"

text \<open>The character class \<^verbatim>\<open>[\d.]\<close>.\<close>

definition is_dd :: "char \<Rightarrow> bool" where
  "is_dd c = (is_digit c \<or> c = CHR ''.'')"

text \<open>
  \<^verbatim>\<open>parseFloat\<close> on a string of digits and dots (all that the capture group
  \<^verbatim>\<open>([\d.]+)\<close> can hold): the longest prefix that is a decimal literal, \<open>NaN\<close> when
  there is none.
\<close>

definition parseFloat :: "string \<Rightarrow> jsnum" where
  "parseFloat s =
     (let ip = takeWhile is_digit s;
          fp = (case drop (length ip) s of
                  c # r \<Rightarrow> if c = CHR ''.'' then takeWhile is_digit r else []
                | [] \<Rightarrow> [])
      in if ip = [] \<and> fp = [] then NaN
         else Num (of_nat (digits_val ip) + of_nat (digits_val fp) / 10 ^ length fp))"

text \<open>
  \<^verbatim>\<open>plan.match(/cost=[\d.]+..([\d.]+)/)\<close>. The pattern is the literal \<^verbatim>\<open>cost=\<close>, a greedy
  run of one or more characters of \<^verbatim>\<open>[\d.]\<close>, two characters matched by \<^verbatim>\<open>.\<close>, and the
  captured greedy run of \<^verbatim>\<open>[\d.]\<close>. A regular-expression engine tries the longest first
  run and gives characters back one at a time until the rest matches; it tries start
  positions from the left. The function takes the predicate matched by the two middle
  pattern characters as a parameter: in the source they are unescaped dots, which
  match any character except a line terminator.
\<close>

fun give_back :: "(char \<Rightarrow> bool) \<Rightarrow> nat \<Rightarrow> string \<Rightarrow> string option" where
  "give_back mid 0 s = None"
| "give_back mid (Suc k) s =
     (case drop (Suc k) s of
        a # b # cs \<Rightarrow>
          if mid a \<and> mid b \<and> takeWhile is_dd cs \<noteq> [] then Some (takeWhile is_dd cs)
          else give_back mid k s
      | _ \<Rightarrow> give_back mid k s)"

fun regex_search :: "(char \<Rightarrow> bool) \<Rightarrow> string \<Rightarrow> string option" where
  "regex_search mid [] = None"
| "regex_search mid (c # cs) =
     (if take 5 (c # cs) = ''cost='' then
        (case give_back mid (length (takeWhile is_dd (drop 5 (c # cs)))) (drop 5 (c # cs)) of
           Some g \<Rightarrow> Some g
         | None \<Rightarrow> regex_search mid cs)
      else regex_search mid cs)"

definition any_char :: "char \<Rightarrow> bool" where
  "any_char c = (c \<noteq> CHR 0x0A \<and> c \<noteq> CHR 0x0D)"

definition cost_match :: "string \<Rightarrow> string option" where
  "cost_match plan = regex_search any_char plan"

section \<open>The query capability\<close>

text \<open>
  Calling the slot's value. The driver's method sends the statement to the database.
  A wrapper follows the body of the function assigned to \<open>pool.query\<close> in
  \<open>logQueryComplexity\<close>: the \<^verbatim>\<open>try\<close> block, the \<^verbatim>\<open>catch\<close> block that logs and rethrows,
  and the \<^verbatim>\<open>finally\<close> block that assigns \<open>originalQuery\<close> back to the slot.
\<close>

definition query_catch :: "string \<Rightarrow> error \<Rightarrow> state \<Rightarrow> state" where
  "query_catch text err s =
     logger_error (''Query error: '' @ err_message err)
       (Some [(''query_text'', JStr text), (''error_code'', JStr ''QUERY_ERROR'')]) [] s"

definition falsy :: "jsval \<Rightarrow> bool" where
  "falsy v = (v = JNull \<or> v = JStr [] \<or> v = JNum NaN \<or> v = JNum (Num 0))"

definition query_plan :: "qresult \<Rightarrow> error + string" where
  "query_plan explainResult =
     (case rows explainResult of
        [] \<Rightarrow> Inl (TypeError ''Cannot read properties of undefined (reading 'QUERY PLAN')'')
      | row0 # _ \<Rightarrow>
          (case map_of row0 ''QUERY PLAN'' of
             None \<Rightarrow> Inr ''N/A''
           | Some v \<Rightarrow>
               if falsy v then Inr ''N/A''
               else (case v of JStr p \<Rightarrow> Inr p
                     | _ \<Rightarrow> Inl (TypeError ''plan.match is not a function''))))"

definition params_count :: "jsval list option \<Rightarrow> nat" where
  "params_count params = (case params of None \<Rightarrow> 0 | Some ps \<Rightarrow> length ps)"

definition rows_returned :: "qresult \<Rightarrow> nat" where
  "rows_returned result = (case rowCount result of None \<Rightarrow> 0 | Some n \<Rightarrow> n)"

definition num :: "int \<Rightarrow> jsval" where
  "num i = JNum (Num (of_int i))"

fun call ::
  "env \<Rightarrow> capability \<Rightarrow> string \<Rightarrow> jsval list option \<Rightarrow> state \<Rightarrow> (error + qresult) \<times> state" where
  "call e Original text params s =
     (db e (queries s) text params,
      s\<lparr>trace := trace s @ [Query text params], queries := Suc (queries s)\<rparr>)"
| "call e (Instrumented rid originalQuery) text params s =
     (let (start, s0) = date_now e s;
          (explainResult, s1) = call e originalQuery (''EXPLAIN '' @ text) params s0
      in case explainResult of
           Inl err \<Rightarrow> (Inl err, (query_catch text err s1)\<lparr>pool_query := originalQuery\<rparr>)
         | Inr er \<Rightarrow>
             (case query_plan er of
                Inl err \<Rightarrow> (Inl err, (query_catch text err s1)\<lparr>pool_query := originalQuery\<rparr>)
              | Inr plan \<Rightarrow>
                  (let queryCost = (case cost_match plan of None \<Rightarrow> Num 0
                                    | Some g \<Rightarrow> parseFloat g);
                       (res, s2) = call e originalQuery text params s1
                   in case res of
                        Inl err \<Rightarrow>
                          (Inl err, (query_catch text err s2)\<lparr>pool_query := originalQuery\<rparr>)
                      | Inr result \<Rightarrow>
                          (let (now, s3) = date_now e s2;
                               duration = now - start;
                               s4 = logger_info (''Executed query: '' @ text)
                                      (Some [(''query_time_ms'', num duration),
                                             (''query_cost'', JNum queryCost),
                                             (''rows_returned'', num (int (rows_returned result))),
                                             (''params_count'', num (int (params_count params)))])
                                      [(''transport'', ''logs/db.log'')] s3;
                               s5 = s4\<lparr>queryComplexity := (queryComplexity s4)
                                      (rid := (queryComplexity s4 rid)(text \<mapsto> (queryCost, duration)))\<rparr>
                           in (Inr result, s5\<lparr>pool_query := originalQuery\<rparr>)))))"

section \<open>Startup\<close>




text \<open>Decimal rendering of integers, as template literals do it.\<close>

fun show_nat :: "nat \<Rightarrow> string" where
  "show_nat n =
     (if n < 10 then [char_of (48 + n)]
      else show_nat (n div 10) @ [char_of (48 + n mod 10)])"

declare show_nat.simps [simp del]

definition show_int :: "int \<Rightarrow> string" where
  "show_int i = (if i < 0 then ''-'' @ show_nat (nat (- i)) else show_nat (nat i))"







section \<open>Requests and responses\<close>

datatype route =
    ApiUsers
  | ApiOrdersGenerate
  | ApiUsersFilter "jsstring option"
  | ApiCompute
  | Metrics
  | Unrouted

record request =
  target :: route
  req_method :: string
  req_url :: string
  req_ip :: "string option"
  req_body :: "string option"
  req_traceId :: "string option"

record order =
  userId :: int
  product :: string
  price :: int

datatype body =
    JsonObj "(string \<times> string) list"
  | JsonRows "row list"
  | JsonOrders "order list"
  | JsonResult rat
  | MetricsText
  | DefaultErrorPage
  | NotFoundPage

text \<open>
  A handler either sends a response or lets an exception leave its body.
\<close>

datatype outcome = Responded nat body | Escaped error

section \<open>Route handlers\<close>

definition inc_errorCounter :: "state \<Rightarrow> state" where
  "inc_errorCounter s = s\<lparr>errorCounter := Suc (errorCounter s)\<rparr>"

subsection \<open>GET /api/users\<close>

definition users_catch :: "error \<Rightarrow> state \<Rightarrow> outcome \<times> state" where
  "users_catch err s =
     (let s1 = inc_errorCounter s;
          s2 = logger_error (''Database error in /api/users: '' @ err_message err)
                 (Some [(''error_code'', JStr ''DB_ERROR'')]) [] s1
      in (Responded 500 (JsonObj [(''error'', ''Internal server error'')]), s2))"

definition opt_num :: "nat option \<Rightarrow> jsval" where
  "opt_num n = (case n of None \<Rightarrow> JNull | Some k \<Rightarrow> num (int k))"

definition users_handler :: "env \<Rightarrow> state \<Rightarrow> outcome \<times> state" where
  "users_handler e s =
     (let (start, s0) = date_now e s;
          (res, s1) = call e (pool_query s0) ''SELECT * FROM users'' None s0
      in case res of
           Inl err \<Rightarrow> users_catch err s1
         | Inr result \<Rightarrow>
             (let (now, s2) = date_now e s1;
                  duration = now - start;
                  s3 = logger_info ''Fetched users from database''
                         (Some [(''rows_returned'', opt_num (rowCount result)),
                                (''query_time_ms'', num duration)])
                         [(''transport'', ''logs/db.log'')] s2
              in (Responded 200 (JsonRows (rows result)), s3)))"

subsection \<open>GET /api/orders/generate\<close>

fun generateOrders :: "env \<Rightarrow> nat \<Rightarrow> state \<Rightarrow> order list \<times> state" where
  "generateOrders e 0 s = ([], s)"
| "generateOrders e (Suc n) s =
     (let k = draws s;
          od = \<lparr>userId = faker_number e k 1 50,
               product = faker_product e (k + 1),
               price = faker_number e (k + 2) 10 1000\<rparr>;
          (os, s1) = generateOrders e n (s\<lparr>draws := k + 3\<rparr>)
      in (od # os, s1))"

definition insert_order_sql :: string where
  "insert_order_sql = ''INSERT INTO orders (user_id, product, price) VALUES ($1, $2, $3)''"

fun insert_orders :: "env \<Rightarrow> order list \<Rightarrow> nat \<Rightarrow> state \<Rightarrow> (error + nat) \<times> state" where
  "insert_orders e [] insertedRows s = (Inr insertedRows, s)"
| "insert_orders e (ord # rest) insertedRows s =
     (case call e (pool_query s) insert_order_sql
             (Some [num (userId ord), JStr (product ord), num (price ord)]) s of
        (Inl err, s1) \<Rightarrow> (Inl err, s1)
      | (Inr _, s1) \<Rightarrow> insert_orders e rest (Suc insertedRows) s1)"

definition orders_catch :: "error \<Rightarrow> state \<Rightarrow> outcome \<times> state" where
  "orders_catch err s =
     (let s1 = inc_errorCounter s;
          s2 = logger_error (''Error generating orders: '' @ err_message err)
                 (Some [(''error_code'', JStr ''INSERT_ERROR'')]) [] s1
      in (Responded 500 (JsonObj [(''error'', ''Failed to generate orders'')]), s2))"

definition orders_handler :: "env \<Rightarrow> state \<Rightarrow> outcome \<times> state" where
  "orders_handler e s =
     (let (start, s0) = date_now e s;
          (orders, s1) = generateOrders e 10 s0;
          (ins, s2) = insert_orders e orders 0 s1
      in case ins of
           Inl err \<Rightarrow> orders_catch err s2
         | Inr insertedRows \<Rightarrow>
             (let (now, s3) = date_now e s2;
                  duration = now - start;
                  s4 = logger_info ''Generated and saved 10 dummy orders''
                         (Some [(''orders_inserted'', num (int insertedRows)),
                                (''operation_time_ms'', num duration)])
                         [(''transport'', ''logs/app.log'')] s3
              in (Responded 200 (JsonOrders orders), s4)))"

subsection \<open>GET /api/users/filter\<close>

text \<open>
  \<^verbatim>\<open>parseInt\<close> with no radix argument, on the code units of its argument: leading white
  space and line terminators are skipped (tab, LF, VT, FF, CR, space, U+00A0, U+1680,
  U+2000 to U+200A, U+2028, U+2029, U+202F, U+205F, U+3000, U+FEFF), a sign is read, a
  \<^verbatim>\<open>0x\<close> or \<^verbatim>\<open>0X\<close> prefix selects base 16, and the longest run of digits of the base is
  converted and rounded to a double; with no digit the result is \<open>NaN\<close>. The sign of a
  zero result is not represented.
\<close>

definition is_space :: "nat \<Rightarrow> bool" where
  "is_space u =
     (u \<in> {0x09, 0x0A, 0x0B, 0x0C, 0x0D, 0x20, 0xA0, 0x1680, 0x2028, 0x2029, 0x202F,
            0x205F, 0x3000, 0xFEFF}
      \<or> (0x2000 \<le> u \<and> u \<le> 0x200A))"

definition hex_val :: "nat \<Rightarrow> nat option" where
  "hex_val u =
     (if 48 \<le> u \<and> u \<le> 57 then Some (u - 48)
      else if 97 \<le> u \<and> u \<le> 102 then Some (u - 87)
      else if 65 \<le> u \<and> u \<le> 70 then Some (u - 55)
      else None)"

definition radix_digit :: "nat \<Rightarrow> nat \<Rightarrow> bool" where
  "radix_digit radix u = (case hex_val u of None \<Rightarrow> False | Some v \<Rightarrow> v < radix)"

definition radix_val :: "nat \<Rightarrow> jsstring \<Rightarrow> nat" where
  "radix_val radix ds =
     foldl (\<lambda>acc u. radix * acc + (case hex_val u of None \<Rightarrow> 0 | Some v \<Rightarrow> v)) 0 ds"

text \<open>The sign, the base and the digits that \<^verbatim>\<open>parseInt\<close> reads from its argument.\<close>

definition int_literal :: "jsstring \<Rightarrow> bool \<times> nat \<times> jsstring" where
  "int_literal str =
     (let s = dropWhile is_space str;
          (neg, s1) = (case s of
                         [] \<Rightarrow> (False, [])
                       | u # r \<Rightarrow> if u = 0x2D then (True, r)
                                  else if u = 0x2B then (False, r) else (False, s));
          (radix, s2) = (if take 2 s1 = [0x30, 0x78] \<or> take 2 s1 = [0x30, 0x58]
                         then (16, drop 2 s1) else (10, s1))
      in (neg, radix, takeWhile (radix_digit radix) s2))"

definition parseInt :: "jsstring \<Rightarrow> jsnum" where
  "parseInt str =
     (let (neg, radix, ds) = int_literal str
      in if ds = [] then NaN
         else if neg then negate (to_double (radix_val radix ds))
         else to_double (radix_val radix ds))"

definition filter_catch :: "error \<Rightarrow> state \<Rightarrow> outcome \<times> state" where
  "filter_catch err s =
     (let s1 = inc_errorCounter s;
          s2 = logger_error (''Filter error: '' @ err_message err)
                 (Some [(''error_code'', JStr ''FILTER_ERROR'')]) [] s1
      in (Responded 500 (JsonObj [(''error'', err_message err)]), s2))"

definition filter_sql :: string where
  "filter_sql = ''SELECT * FROM users WHERE age > $1''"

text \<open>
  \<open>age\<close> is \<open>req.query.age\<close>: absent (\<open>None\<close>) or the text of the parameter, for a query
  string with at most one \<^verbatim>\<open>age=\<close>; the arrays and objects that the query parser builds
  from repeated or bracketed keys are not modelled. The test \<^verbatim>\<open>!age\<close> holds for an absent
  and for an empty parameter. The literal \<^verbatim>\<open>0.3\<close> is the double
  \<open>5404319552844595 / 2^54\<close>.
\<close>

definition filter_handler :: "env \<Rightarrow> jsstring option \<Rightarrow> state \<Rightarrow> outcome \<times> state" where
  "filter_handler e age s =
     (case age of
        None \<Rightarrow> filter_catch (Error ''Age query parameter is required'') s
      | Some a \<Rightarrow>
          if a = [] then filter_catch (Error ''Age query parameter is required'') s
          else
            (let (start, s0) = date_now e s;
                 (res, s1) = call e (pool_query s0) filter_sql (Some [JNum (parseInt a)]) s0
             in case res of
                  Inl err \<Rightarrow> filter_catch err s1
                | Inr result \<Rightarrow>
                    (let (now, s2) = date_now e s1;
                         duration = now - start;
                         (r, s3) = math_random e s2
                     in if r < 5404319552844595 / 2 ^ 54
                        then filter_catch (Error ''Random server failure'') s3
                        else
                          (let s4 = logger_info (''Filtered users with age > '' @ show_text e a)
                                      (Some [(''rows_returned'', opt_num (rowCount result)),
                                             (''query_time_ms'', num duration)])
                                      [(''transport'', ''logs/db.log'')] s3
                           in (Responded 200 (JsonRows (rows result)), s4)))))"


subsection \<open>GET /api/compute\<close>

text \<open>
  The loop \<^verbatim>\<open>for (let i = 0; i < 1e6; i++) result += Math.random()\<close>, as a recursion on
  the number of iterations that remain.
\<close>

fun compute_loop :: "env \<Rightarrow> nat \<Rightarrow> rat \<Rightarrow> state \<Rightarrow> rat \<times> state" where
  "compute_loop e 0 result s = (result, s)"
| "compute_loop e (Suc n) result s =
     (let (r, s1) = math_random e s in compute_loop e n (result + r) s1)"

text \<open>
  Identifiers are resolved along the scope chain of the block that uses them. The
  handler's \<^verbatim>\<open>try\<close> block declares \<open>start\<close>, \<open>result\<close>, \<open>duration\<close>, \<open>cpuUsage\<close> and
  \<open>failureChance\<close> with \<^verbatim>\<open>const\<close>/\<^verbatim>\<open>let\<close>, which are scoped to that block. The chain of
  the \<^verbatim>\<open>catch\<close> block is: its own declarations, the catch parameter, the parameters of
  the handler, and the top-level bindings of the module; the global object of Node.js
  has no property \<open>start\<close>. Resolving a name outside the chain raises a ReferenceError.
\<close>

definition module_scope :: "string list" where
  "module_scope =
     [''express'', ''winston'', ''Pool'', ''generateUsers'', ''generateOrders'', ''promClient'',
      ''process'', ''app'', ''collectDefaultMetrics'', ''httpRequestDuration'', ''errorCounter'',
      ''logger'', ''pool'', ''logQueryComplexity'', ''waitForPostgres'']"

definition compute_try_scope :: "string list" where
  "compute_try_scope =
     [''start'', ''result'', ''duration'', ''cpuUsage'', ''failureChance'', ''req'', ''res'']
     @ module_scope"

definition compute_catch_scope :: "string list" where
  "compute_catch_scope = [''duration'', ''cpuUsage'', ''err'', ''req'', ''res''] @ module_scope"

definition trace_id :: "request \<Rightarrow> string" where
  "trace_id req =
     (case req_traceId req of None \<Rightarrow> ''N/A'' | Some t \<Rightarrow> if t = [] then ''N/A'' else t)"

text \<open>
  The \<^verbatim>\<open>catch\<close> block. \<open>start\<close> is the value the \<^verbatim>\<open>try\<close> block bound to that name; the
  block reads it only if the name resolves in its own scope chain.
\<close>

definition compute_catch :: "env \<Rightarrow> request \<Rightarrow> int \<Rightarrow> error \<Rightarrow> state \<Rightarrow> outcome \<times> state" where
  "compute_catch e req start err s =
     (let s1 = inc_errorCounter s;
          (now, s2) = date_now e s1
      in if ''start'' \<in> set compute_catch_scope then
           (let duration = now - start;
                cpuUsage = cpu_usage_s e (reads s2);
                s3 = logger_error (''Compute error: '' @ err_message err)
                       (Some [(''error_code'', JStr ''COMPUTE_ERROR''),
                              (''compute_time_ms'', num duration),
                              (''cpu_usage_s'', JStr cpuUsage),
                              (''failure_point'', JStr ''loop_execution''),
                              (''request_url'', JStr (req_url req)),
                              (''trace_id'', JStr (trace_id req))]) [] s2
            in (Responded 500
                  (JsonObj [(''error'', ''Computation failed''), (''details'', err_message err)]),
                s3))
         else (Escaped (ReferenceError ''start is not defined''), s2))"

definition compute_handler :: "env \<Rightarrow> request \<Rightarrow> state \<Rightarrow> outcome \<times> state" where
  "compute_handler e req s =
     (let (start, s0) = date_now e s;
          s1 = logger_info ''Starting heavy computation'' None
                 [(''transport'', ''logs/app.log'')] s0;
          (result, s2) = compute_loop e 1000000 0 s1;
          (now, s3) = date_now e s2;
          duration = now - start;
          cpuUsage = cpu_usage_s e (reads s3);
          (failureChance, s4) = math_random e s3
      in if failureChance < 8 / 10 then
           compute_catch e req start
             (Error ''Computation overload due to excessive resource demand'') s4
         else
           (let s5 = logger_info (''Computation completed: '' @ fmt_number e result)
                       (Some [(''compute_time_ms'', num duration),
                              (''cpu_usage_s'', JStr cpuUsage),
                              (''result_size'', num (int (length (to_fixed2 e result))))])
                       [(''transport'', ''logs/app.log'')] s4
            in (Responded 200 (JsonResult result), s5)))"

subsection \<open>GET /metrics\<close>

definition metrics_handler :: "state \<Rightarrow> outcome \<times> state" where
  "metrics_handler s = (Responded 200 MetricsText, s)"

section \<open>The middleware chain\<close>

text \<open>\<^verbatim>\<open>Math.floor(Math.random() * 91) + 10\<close>.\<close>

definition networkLatency :: "rat \<Rightarrow> int" where
  "networkLatency r = floor_nearest_double (r * 91) + 10"

text \<open>
  \<open>logQueryComplexity\<close>: a fresh request object has no \<open>queryComplexity\<close>, so it is set to
  the empty object; the slot's value is saved as \<open>originalQuery\<close> and the wrapper that
  closes over both is stored in the slot.
\<close>

definition logQueryComplexity :: "nat \<Rightarrow> state \<Rightarrow> state" where
  "logQueryComplexity rid s =
     s\<lparr>queryComplexity := (queryComplexity s)(rid := Map.empty),
       pool_query := Instrumented rid (pool_query s)\<rparr>"

definition dispatch :: "env \<Rightarrow> request \<Rightarrow> state \<Rightarrow> outcome \<times> state" where
  "dispatch e req s =
     (case target req of
        ApiUsers \<Rightarrow> users_handler e s
      | ApiOrdersGenerate \<Rightarrow> orders_handler e s
      | ApiUsersFilter a \<Rightarrow> filter_handler e a s
      | ApiCompute \<Rightarrow> compute_handler e req s
      | Metrics \<Rightarrow> metrics_handler s
      | Unrouted \<Rightarrow> (Responded 404 NotFoundPage, s))"

definition access_line :: "request \<Rightarrow> string \<Rightarrow> nat \<Rightarrow> int \<Rightarrow> string" where
  "access_line req date status duration =
     (case req_ip req of None \<Rightarrow> ''127.0.0.1'' | Some i \<Rightarrow> if i = [] then ''127.0.0.1'' else i)
     @ '' - - ['' @ date @ ''] \"'' @ req_method req @ '' '' @ req_url req @ '' HTTP/1.1\" ''
     @ show_nat status @ '' '' @ show_int duration @ '' \"-\" \"Mozilla/5.0 (Node.js)\" \"-\"''"

text \<open>
  One request through the chain: the access-log middleware reads the clock, draws the
  latency and waits; then the \<^verbatim>\<open>finish\<close> listener is registered and the next middleware
  installs the wrapper; then the route handler runs. An exception that leaves a handler
  is answered by the framework's default error handler with status 500 and its own
  error page. When the response is finished the listener writes the access record.
\<close>

definition handle_request :: "env \<Rightarrow> request \<Rightarrow> state \<Rightarrow> (nat \<times> body) \<times> state" where
  "handle_request e req s =
     (let rid = next_req s;
          (start, s0) = date_now e (s\<lparr>next_req := Suc rid\<rparr>);
          reqSize = (case req_body req of None \<Rightarrow> 0 | Some b \<Rightarrow> length b);
          (r, s1) = math_random e s0;
          latency = networkLatency r;
          s2 = sleep (nat latency) s1;
          s3 = logQueryComplexity rid s2;
          (out, s4) = dispatch e req s3;
          (status, bdy) = (case out of Responded st b \<Rightarrow> (st, b)
                           | Escaped err \<Rightarrow> (500, DefaultErrorPage));
          (now, s5) = date_now e s4;
          duration = now - start;
          s6 = logger_info (access_line req (utc_date e (reads s5)) status duration)
                 (Some [(''response_time_ms'', num duration),
                        (''request_size_bytes'', num (int reqSize)),
                        (''memory_usage_mb'', JStr (memory_usage_mb e (reads s5))),
                        (''network_latency_ms'', num latency)]) [] s5
      in ((status, bdy), s6))"

fun serve :: "env \<Rightarrow> request list \<Rightarrow> state \<Rightarrow> state" where
  "serve e [] s = s"
| "serve e (req # reqs) s = serve e reqs (snd (handle_request e req s))"

section \<open>Sample inputs and observations\<close>

text \<open>
  Concrete environments for evaluation: a database that answers every statement with one
  plan row, one that refuses every statement, and one that refuses its first \<open>n\<close>
  statements.
\<close>

definition plan_result :: qresult where
  "plan_result = \<lparr>rows = [[(''QUERY PLAN'',
       JStr ''Seq Scan on users  (cost=0.00..15.00 rows=500 width=40)'')]], rowCount = Some 1\<rparr>"

definition db_up :: "nat \<Rightarrow> string \<Rightarrow> jsval list option \<Rightarrow> error + qresult" where
  "db_up k text params = Inr plan_result"

definition db_down :: "nat \<Rightarrow> string \<Rightarrow> jsval list option \<Rightarrow> error + qresult" where
  "db_down k text params = Inl (Error ''connect ECONNREFUSED'')"


definition sample_env :: "rat \<Rightarrow> (nat \<Rightarrow> string \<Rightarrow> jsval list option \<Rightarrow> error + qresult) \<Rightarrow> env" where
  "sample_env r d =
     \<lparr>rnd = (\<lambda>_. r), clock = (\<lambda>k. int k), db = d,
      memory_usage_mb = (\<lambda>_. ''50.00''), cpu_usage_s = (\<lambda>_. ''0.10''),
      utc_date = (\<lambda>_. ''Mon 02 Nov 2026 00:00:00 +0000''),
      fmt_number = (\<lambda>_. ''0''), to_fixed2 = (\<lambda>_. ''0.00''), show_text = map char_of,
      faker_number = (\<lambda>k lo hi. lo + int k mod (hi - lo + 1)), faker_product = (\<lambda>_. ''Chair'')\<rparr>"



definition is_query :: "event \<Rightarrow> bool" where
  "is_query ev = (case ev of Query _ _ \<Rightarrow> True | _ \<Rightarrow> False)"




definition db_explain_only :: "nat \<Rightarrow> string \<Rightarrow> jsval list option \<Rightarrow> error + qresult" where
  "db_explain_only k text params =
     (if take 8 text = ''EXPLAIN '' then Inr plan_result
      else Inl (Error ''relation \"users\" does not exist''))"

text \<open>
  A database that, like PostgreSQL, has no estimation of an estimation statement and
  answers everything else.
\<close>

definition db_postgres :: "nat \<Rightarrow> string \<Rightarrow> jsval list option \<Rightarrow> error + qresult" where
  "db_postgres k text params =
     (if take 16 text = ''EXPLAIN EXPLAIN '' then Inl (Error ''syntax error at or near \"EXPLAIN\"'')
      else Inr plan_result)"



text \<open>
  An environment whose clock steps back after the first reading, and whose draws are a
  double just below \<open>20 / 91\<close>.
\<close>

definition stepping_env :: env where
  "stepping_env =
     (sample_env (1979604231811207 / 2 ^ 53) db_up)\<lparr>clock := (\<lambda>k. if k = 0 then 10 else 3)\<rparr>"

definition get :: "route \<Rightarrow> string \<Rightarrow> request" where
  "get r url = \<lparr>target = r, req_method = ''GET'', req_url = url, req_ip = Some ''::1'',
                req_body = None, req_traceId = None\<rparr>"

text \<open>The same record written to each of a list of sinks, in order.\<close>

definition written :: "log_entry \<Rightarrow> sink list \<Rightarrow> event list" where
  "written en sinks = map (\<lambda>snk. Write snk en) sinks"

text \<open>
  The specification's reading of the cost signal: the plan line reports
  \<^verbatim>\<open>cost=<startup>..<total>\<close>, and the figure to extract is the one after the two dots.
  This is the same search with the two middle pattern characters matching a literal
  dot only.
\<close>

definition spec_max_cost_figure :: "string \<Rightarrow> string option" where
  "spec_max_cost_figure plan = regex_search (\<lambda>c. c = CHR ''.'') plan"

text \<open>
  The record the access-log middleware writes is the one that carries
  \<open>network_latency_ms\<close>; \<open>access_records\<close> collects these records from what was written
  to the access sink.
\<close>

definition is_access_record :: "log_entry \<Rightarrow> bool" where
  "is_access_record en =
     (case metrics en of None \<Rightarrow> False | Some ms \<Rightarrow> map_of ms ''network_latency_ms'' \<noteq> None)"

fun access_record_of :: "event \<Rightarrow> log_entry list" where
  "access_record_of (Write snk en) = (if snk = AccessLog \<and> is_access_record en then [en] else [])"
| "access_record_of _ = []"

definition access_records :: "event list \<Rightarrow> log_entry list" where
  "access_records tr = concat (map access_record_of tr)"

definition metric :: "log_entry \<Rightarrow> string \<Rightarrow> jsval option" where
  "metric en key = (case metrics en of None \<Rightarrow> None | Some ms \<Rightarrow> map_of ms key)"

text \<open>
  A proof device: \<open>s'\<close> is reached from \<open>s\<close> by reading the clock some more times and by
  adding events none of which is an access record.
\<close>

definition extends :: "state \<Rightarrow> state \<Rightarrow> bool" where
  "extends s s' =
     (reads s \<le> reads s' \<and> (\<exists>tl. trace s' = trace s @ tl \<and> access_records tl = []))"

named_theorems frame

named_theorems slot

section \<open>Properties\<close>

subsection \<open>What the logger and the wrapper add to the trace\<close>

lemma logger_info_trace:
  "logger_info msg ms fs s =
     s\<lparr>trace := trace s @ written \<lparr>lvl = LInfo, message = msg, metrics = ms, meta = fs\<rparr>
                          [AccessLog, DbLog, AppLog, Console]\<rparr>"
  by (simp add: logger_info_def logger_log_def emit_def transports_def admits_def written_def)

lemma logger_error_trace:
  "logger_error msg ms fs s =
     s\<lparr>trace := trace s @ written \<lparr>lvl = LError, message = msg, metrics = ms, meta = fs\<rparr>
                          [AccessLog, ErrorLog, DbLog, AppLog, Console]\<rparr>"
  by (simp add: logger_error_def logger_log_def emit_def transports_def admits_def written_def)

lemma query_catch_eq:
  "query_catch qtext err s =
     s\<lparr>trace := trace s @ written \<lparr>lvl = LError, message = ''Query error: '' @ err_message err,
                     metrics = Some [(''query_text'', JStr qtext),
                                     (''error_code'', JStr ''QUERY_ERROR'')],
                     meta = []\<rparr> [AccessLog, ErrorLog, DbLog, AppLog, Console]\<rparr>"
  by (simp add: query_catch_def logger_error_trace)

lemma filter_catch_eq:
  "filter_catch err s =
     (Responded 500 (JsonObj [(''error'', err_message err)]),
      s\<lparr>errorCounter := Suc (errorCounter s),
        trace := trace s @ written \<lparr>lvl = LError, message = ''Filter error: '' @ err_message err,
                     metrics = Some [(''error_code'', JStr ''FILTER_ERROR'')], meta = []\<rparr>
                     [AccessLog, ErrorLog, DbLog, AppLog, Console]\<rparr>)"
  by (simp add: filter_catch_def inc_errorCounter_def logger_error_trace Let_def)

text \<open>The \<^verbatim>\<open>finally\<close> block: whatever happens, the slot gets \<open>originalQuery\<close> back.\<close>

lemma call_restores:
  "pool_query (snd (call e (Instrumented rid orig) qtext params s)) = orig"
  by (simp add: split_beta Let_def query_catch_eq logger_info_trace split: sum.splits)

text \<open>
  The trace only grows, and a call starts by sending a statement that ends in the
  caller's text and carries the caller's parameters.
\<close>

lemma call_first_statement:
  "\<exists>pre tl. trace (snd (call e c qtext params s)) = trace s @ Query (pre @ qtext) params # tl"
proof (induction c arbitrary: qtext s)
  case Original
  show ?case by (rule exI[of _ "[]"]) simp
next
  case (Instrumented rid orig)
  let ?s0 = "snd (date_now e s)"
  let ?c1 = "call e orig (''EXPLAIN '' @ qtext) params ?s0"
  from Instrumented.IH[of "''EXPLAIN '' @ qtext" ?s0]
  obtain pre tl where 1: "trace (snd ?c1) = trace s @ Query (pre @ ''EXPLAIN '' @ qtext) params # tl"
    by (auto simp: date_now_def)
  from Instrumented.IH[of qtext "snd ?c1"]
  obtain pre2 tl2 where 2: "trace (snd (call e orig qtext params (snd ?c1)))
       = trace (snd ?c1) @ Query (pre2 @ qtext) params # tl2"
    by auto
  have "\<exists>tl'. trace (snd (call e (Instrumented rid orig) qtext params s))
           = trace s @ Query ((pre @ ''EXPLAIN '') @ qtext) params # tl'"
    using 1 2
    by (simp add: split_beta Let_def query_catch_eq logger_info_trace date_now_def
        split: sum.splits)
  then show ?case by blast
qed

lemma compute_loop_state: "snd (compute_loop e n acc s) = s\<lparr>draws := draws s + n\<rparr>"
  by (induction n arbitrary: acc s) (simp_all add: math_random_def split_beta)

lemma start_unresolved: "''start'' \<notin> set compute_catch_scope"
  by (simp add: compute_catch_scope_def module_scope_def)

lemma start_in_try_scope: "''start'' \<in> set compute_try_scope"
  by (simp add: compute_try_scope_def)

lemma plan_of_plan_result:
  "query_plan plan_result = Inr ''Seq Scan on users  (cost=0.00..15.00 rows=500 width=40)''"
  by (simp add: query_plan_def plan_result_def falsy_def)

subsection \<open>Failures inside handlers\<close>

lemma compute_handler_failure:
  assumes "rnd e (draws s + 1000000) < 8 / 10"
  shows "fst (compute_handler e req s) = Escaped (ReferenceError ''start is not defined'')
       \<and> errorCounter (snd (compute_handler e req s)) = Suc (errorCounter s)
       \<and> trace (snd (compute_handler e req s))
           = trace s @ written \<lparr>lvl = LInfo, message = ''Starting heavy computation'',
                                 metrics = None, meta = [(''transport'', ''logs/app.log'')]\<rparr>
                         [AccessLog, DbLog, AppLog, Console]"
  using assms
  by (simp add: compute_handler_def compute_catch_def start_unresolved date_now_def
      math_random_def logger_info_trace inc_errorCounter_def
      split_beta compute_loop_state Let_def)

text \<open>
  C1. The claim says that every failure raised in a handler is answered by that handler
  with status 500 and a JSON error body, \<open>{error, details}\<close> for \<open>/api/compute\<close>. In the
  \<open>/api/compute\<close> handler, whenever the failure draw is below 0.8, the \<^verbatim>\<open>catch\<close> block
  increments the error counter and then raises a ReferenceError on the name \<open>start\<close>:
  the handler writes no error record and sends no response; the exception leaves the
  handler.
\<close>

theorem compute_failure_escapes:
  assumes "rnd e (draws s + 1000000) < 8 / 10"
  shows "fst (compute_handler e req s) = Escaped (ReferenceError ''start is not defined'')
       \<and> errorCounter (snd (compute_handler e req s)) = Suc (errorCounter s)
       \<and> trace (snd (compute_handler e req s))
           = trace s @ written \<lparr>lvl = LInfo, message = ''Starting heavy computation'',
                                 metrics = None, meta = [(''transport'', ''logs/app.log'')]\<rparr>
                         [AccessLog, DbLog, AppLog, Console]"
  by (rule compute_handler_failure[OF assms])

theorem compute_failure_escapes_witness:
  "fst (compute_handler (sample_env (1/2) db_up) (get ApiCompute ''/api/compute'') init)
     = Escaped (ReferenceError ''start is not defined'')
   \<and> errorCounter (snd (compute_handler (sample_env (1/2) db_up)
                          (get ApiCompute ''/api/compute'') init)) = 1
   \<and> trace (snd (compute_handler (sample_env (1/2) db_up) (get ApiCompute ''/api/compute'') init))
       = written \<lparr>lvl = LInfo, message = ''Starting heavy computation'',
                   metrics = None, meta = [(''transport'', ''logs/app.log'')]\<rparr>
           [AccessLog, DbLog, AppLog, Console]"
proof -
  have "rnd (sample_env (1/2) db_up) (draws init + 1000000) < 8 / 10"
    by (simp add: sample_env_def)
  from compute_failure_escapes[OF this, of "get ApiCompute ''/api/compute''"]
  show ?thesis by (simp add: init_def)
qed

text \<open>
  Seen from the client, the request is then answered by the framework's default error
  handler, not by the handler's JSON body.
\<close>

lemma compute_request_response:
  assumes "target req = ApiCompute" and "rnd e (draws s + 1000001) < 8 / 10"
  shows "fst (handle_request e req s) = (500, DefaultErrorPage)"
proof -
  let ?s3 = "logQueryComplexity (next_req s)
     (sleep (nat (networkLatency (fst (math_random e (snd (date_now e (s\<lparr>next_req := Suc (next_req s)\<rparr>)))))))
        (snd (math_random e (snd (date_now e (s\<lparr>next_req := Suc (next_req s)\<rparr>))))))"
  have "draws ?s3 = Suc (draws s)"
    by (simp add: logQueryComplexity_def sleep_def emit_def math_random_def date_now_def)
  then have "draws ?s3 + 1000000 = draws s + 1000001" by simp
  then have "rnd e (draws ?s3 + 1000000) < 8 / 10" using assms(2) by (simp only:)
  from compute_handler_failure[OF this, of req]
  have "fst (compute_handler e req ?s3) = Escaped (ReferenceError ''start is not defined'')"
    by simp
  then show ?thesis using assms(1)
    by (simp add: handle_request_def dispatch_def split_beta Let_def)
qed

subsection \<open>Restoring the query capability\<close>

lemma slot_date_now [slot]: "pool_query (snd (date_now e s)) = pool_query s"
  by (simp add: date_now_def)

lemma slot_math_random [slot]: "pool_query (snd (math_random e s)) = pool_query s"
  by (simp add: math_random_def)

lemma slot_logger_info [slot]: "pool_query (logger_info msg ms fs s) = pool_query s"
  by (simp add: logger_info_trace)

lemma slot_logger_error [slot]: "pool_query (logger_error msg ms fs s) = pool_query s"
  by (simp add: logger_error_trace)

lemma slot_inc [slot]: "pool_query (inc_errorCounter s) = pool_query s"
  by (simp add: inc_errorCounter_def)

lemma slot_call_original [slot]: "pool_query (snd (call e Original qtext params s)) = pool_query s"
  by simp

lemma slot_generateOrders [slot]: "pool_query (snd (generateOrders e n s)) = pool_query s"
  by (induction n arbitrary: s) (simp_all add: split_beta Let_def slot)

lemma insert_orders_original:
  "pool_query s = Original \<Longrightarrow> pool_query (snd (insert_orders e os n s)) = Original"
  by (induction os arbitrary: n s) (simp_all add: split_beta slot split: sum.splits)

lemma insert_orders_restores:
  assumes "pool_query s = Instrumented rid Original" and "os \<noteq> []"
  shows "pool_query (snd (insert_orders e os n s)) = Original"
proof (cases os)
  case Nil
  with assms(2) show ?thesis by simp
next
  case (Cons a rest)
  let ?ps = "Some [num (userId a), JStr (product a), num (price a)]"
  obtain r s1 where c: "call e (Instrumented rid Original) insert_order_sql ?ps s = (r, s1)"
    by (cases "call e (Instrumented rid Original) insert_order_sql ?ps s")
  have "pool_query (snd (call e (Instrumented rid Original) insert_order_sql ?ps s)) = Original"
    by (rule call_restores)
  then have s1: "pool_query s1 = Original" by (simp only: c snd_conv)
  show ?thesis
    using c s1 assms(1) Cons
    by (cases r) (simp_all add: insert_orders_original slot del: call.simps)
qed

lemma generateOrders_nonempty: "fst (generateOrders e (Suc n) s) \<noteq> []"
  by (simp add: split_beta Let_def)

text \<open>From the original slot, a request whose handler issues a query ends with the original slot.\<close>

lemma request_with_query_restores:
  assumes "pool_query s = Original"
  shows "pool_query (snd (handle_request e (req\<lparr>target := ApiUsers\<rparr>) s)) = Original"
    and "pool_query (snd (handle_request e (req\<lparr>target := ApiOrdersGenerate\<rparr>) s)) = Original"
    and "a \<noteq> [] \<Longrightarrow>
         pool_query (snd (handle_request e (req\<lparr>target := ApiUsersFilter (Some a)\<rparr>) s)) = Original"
proof -
  let ?s3 = "logQueryComplexity (next_req s)
     (sleep (nat (networkLatency (fst (math_random e (snd (date_now e (s\<lparr>next_req := Suc (next_req s)\<rparr>)))))))
        (snd (math_random e (snd (date_now e (s\<lparr>next_req := Suc (next_req s)\<rparr>))))))"
  have s3: "pool_query ?s3 = Instrumented (next_req s) Original"
    using assms by (simp add: logQueryComplexity_def sleep_def emit_def slot)
  have fin: "pool_query (snd (handle_request e r s)) = pool_query (snd (dispatch e r ?s3))" for r
    by (simp add: handle_request_def split_beta Let_def slot)
  have u: "pool_query (snd (users_handler e ?s3)) = Original"
    using s3 by (simp add: users_handler_def users_catch_def split_beta Let_def call_restores
        slot split: sum.splits)
  have f: "pool_query (snd (filter_handler e (Some a) ?s3)) = Original" if "a \<noteq> []"
    using s3 that by (simp add: filter_handler_def filter_catch_eq split_beta Let_def
        call_restores slot split: sum.splits)
  have "10 = Suc 9" by simp
  then have ne: "fst (generateOrders e 10 t) \<noteq> []" for t
    using generateOrders_nonempty[of e 9 t] by simp
  have o: "pool_query (snd (orders_handler e ?s3)) = Original"
    using s3 ne
    by (simp add: orders_handler_def orders_catch_def split_beta Let_def insert_orders_restores
        slot split: sum.splits)
  show "pool_query (snd (handle_request e (req\<lparr>target := ApiUsers\<rparr>) s)) = Original"
    using u by (simp add: fin dispatch_def)
  show "pool_query (snd (handle_request e (req\<lparr>target := ApiOrdersGenerate\<rparr>) s)) = Original"
    using o by (simp add: fin dispatch_def)
  show "pool_query (snd (handle_request e (req\<lparr>target := ApiUsersFilter (Some a)\<rparr>) s)) = Original"
    if "a \<noteq> []"
    using f[OF that] by (simp add: fin dispatch_def)
qed

text \<open>
  With a database that, like PostgreSQL, rejects the estimation of an estimation: after
  one request without a query, the next request's single query fails inside the stale
  wrapper, the client gets status 500, and the stale wrapper is installed again.
\<close>

lemma stale_wrapper_breaks_next_request:
  "fst (handle_request (sample_env (1/2) db_postgres) (get ApiUsers ''/api/users'')
          (snd (handle_request (sample_env (1/2) db_postgres) (get Metrics ''/metrics'') init)))
     = (500, JsonObj [(''error'', ''Internal server error'')])
   \<and> pool_query (serve (sample_env (1/2) db_postgres)
                    [get Metrics ''/metrics'', get ApiUsers ''/api/users''] init)
     = Instrumented 0 Original
   \<and> filter is_query (trace (serve (sample_env (1/2) db_postgres)
                    [get Metrics ''/metrics'', get ApiUsers ''/api/users''] init))
     = [Query ''EXPLAIN EXPLAIN SELECT * FROM users'' None]"
proof -
  let ?e = "sample_env (1/2) db_postgres"
  let ?s1 = "snd (handle_request ?e (get Metrics ''/metrics'') init)"
  have s1: "pool_query ?s1 = Instrumented 0 Original" "queries ?s1 = 0" "next_req ?s1 = 1"
    "filter is_query (trace ?s1) = []"
    by (simp_all add: handle_request_def dispatch_def split_beta Let_def metrics_handler_def get_def
        logger_info_trace sleep_def emit_def logQueryComplexity_def date_now_def math_random_def
        init_def is_query_def written_def)
  let ?s3 = "logQueryComplexity (next_req ?s1)
     (sleep (nat (networkLatency (fst (math_random ?e (snd (date_now ?e (?s1\<lparr>next_req := Suc (next_req ?s1)\<rparr>)))))))
        (snd (math_random ?e (snd (date_now ?e (?s1\<lparr>next_req := Suc (next_req ?s1)\<rparr>))))))"
  have s3: "pool_query ?s3 = Instrumented 1 (Instrumented 0 Original)" "queries ?s3 = 0"
    "filter is_query (trace ?s3) = []"
    using s1 by (simp_all add: logQueryComplexity_def sleep_def emit_def date_now_def
        math_random_def is_query_def)
  have dbx: "db ?e k ''EXPLAIN EXPLAIN SELECT * FROM users'' None
               = Inl (Error ''syntax error at or near \"EXPLAIN\"'')" for k
    by (simp add: sample_env_def db_postgres_def)
  have u: "fst (users_handler ?e ?s3) = Responded 500 (JsonObj [(''error'', ''Internal server error'')])"
    "pool_query (snd (users_handler ?e ?s3)) = Instrumented 0 Original"
    "filter is_query (trace (snd (users_handler ?e ?s3)))
       = [Query ''EXPLAIN EXPLAIN SELECT * FROM users'' None]"
    using s3
    by (simp_all add: users_handler_def users_catch_def split_beta Let_def dbx query_catch_eq
        logger_error_trace date_now_def inc_errorCounter_def is_query_def written_def)
  have fin: "fst (handle_request ?e (get ApiUsers ''/api/users'') ?s1)
               = (case fst (users_handler ?e ?s3) of Responded st b \<Rightarrow> (st, b)
                  | Escaped err \<Rightarrow> (500, DefaultErrorPage))"
    "pool_query (snd (handle_request ?e (get ApiUsers ''/api/users'') ?s1))
       = pool_query (snd (users_handler ?e ?s3))"
    "filter is_query (trace (snd (handle_request ?e (get ApiUsers ''/api/users'') ?s1)))
       = filter is_query (trace (snd (users_handler ?e ?s3)))"
    by (simp_all add: handle_request_def dispatch_def split_beta Let_def get_def
        logger_info_trace is_query_def written_def date_now_def)
  from u fin show ?thesis by simp
qed

text \<open>
  C2. The claim says that the slot is back to its original form when the handler
  completes, also for a handler that issues no query. The slot is assigned back only
  inside the wrapper, so a request whose handler never calls it (\<open>/api/compute\<close>,
  \<open>/metrics\<close>, \<open>/api/users/filter\<close> without \<open>age\<close>, an unknown route) ends with this
  request's wrapper still installed; on a fresh server the slot is then not the
  original.
\<close>

theorem zero_query_request_keeps_wrapper:
  "pool_query (snd (handle_request e (req\<lparr>target := ApiCompute\<rparr>) s))
     = Instrumented (next_req s) (pool_query s)
   \<and> pool_query (snd (handle_request e (req\<lparr>target := Metrics\<rparr>) s))
     = Instrumented (next_req s) (pool_query s)
   \<and> pool_query (snd (handle_request e (req\<lparr>target := ApiUsersFilter None\<rparr>) s))
     = Instrumented (next_req s) (pool_query s)
   \<and> pool_query (snd (handle_request e (req\<lparr>target := Unrouted\<rparr>) s))
     = Instrumented (next_req s) (pool_query s)
   \<and> pool_query (snd (handle_request e (get ApiCompute ''/api/compute'') init)) \<noteq> Original"
proof -
  have c: "pool_query (snd (compute_handler e r t)) = pool_query t" for r t
    by (simp add: compute_handler_def compute_catch_def start_unresolved date_now_def
      math_random_def logger_info_trace inc_errorCounter_def
      split_beta compute_loop_state Let_def)
  have 1: "pool_query (snd (handle_request e (req\<lparr>target := ApiCompute\<rparr>) s))
     = Instrumented (next_req s) (pool_query s)" for req s
    by (simp add: handle_request_def dispatch_def split_beta Let_def c logger_info_trace
        sleep_def emit_def logQueryComplexity_def date_now_def math_random_def)
  have 2: "pool_query (snd (handle_request e (req\<lparr>target := Metrics\<rparr>) s))
     = Instrumented (next_req s) (pool_query s)"
    by (simp add: handle_request_def dispatch_def split_beta Let_def metrics_handler_def
        logger_info_trace sleep_def emit_def logQueryComplexity_def date_now_def math_random_def)
  have 3: "pool_query (snd (handle_request e (req\<lparr>target := ApiUsersFilter None\<rparr>) s))
     = Instrumented (next_req s) (pool_query s)"
    by (simp add: handle_request_def dispatch_def split_beta Let_def filter_handler_def
        filter_catch_eq
        logger_info_trace sleep_def emit_def logQueryComplexity_def date_now_def math_random_def)
  have 4: "pool_query (snd (handle_request e (req\<lparr>target := Unrouted\<rparr>) s))
     = Instrumented (next_req s) (pool_query s)"
    by (simp add: handle_request_def dispatch_def split_beta Let_def
        logger_info_trace sleep_def emit_def logQueryComplexity_def date_now_def math_random_def)
  have 5: "pool_query (snd (handle_request e (get ApiCompute ''/api/compute'') init)) \<noteq> Original"
    using 1[of "get ApiCompute ''/api/compute''" init] by (simp add: get_def)
  from 1 2 3 4 5 show ?thesis by blast
qed






lemma generateOrders_length: "length (fst (generateOrders e n s)) = n"
  by (induction n arbitrary: s) (simp_all add: split_beta Let_def)

text \<open>
  The loop of \<open>/api/orders/generate\<close> starts with the wrapper of this request in the
  slot, over whatever the slot held when the request arrived, and with ten orders.
\<close>

lemma orders_loop_start:
  "pool_query (snd (generateOrders e 10 (snd (date_now e (logQueryComplexity rid s)))))
     = Instrumented rid (pool_query s)
   \<and> length (fst (generateOrders e 10 (snd (date_now e (logQueryComplexity rid s))))) = 10"
  by (simp add: slot generateOrders_length logQueryComplexity_def)



subsection \<open>Cost estimation\<close>

lemma cost_match_sample:
  "cost_match ''Seq Scan on users  (cost=0.00..15.00 rows=500 width=40)'' = Some ''0''"
  by (simp add: cost_match_def any_char_def is_dd_def is_digit_def)

lemma spec_max_cost_sample:
  "spec_max_cost_figure ''Seq Scan on users  (cost=0.00..15.00 rows=500 width=40)''
     = Some ''15.00''"
  by (simp add: spec_max_cost_figure_def is_dd_def is_digit_def)

lemma parseFloat_samples: "parseFloat ''0'' = Num 0" "parseFloat ''15.00'' = Num 15"
  by (simp_all add: parseFloat_def is_digit_def digits_val_def digit_val_def)

text \<open>
  The order of one instrumented call over the driver's method, when both statements
  succeed: estimation statement, real statement, then the log record, whose
  \<open>query_cost\<close> is what \<open>cost_match\<close> captured, or 0 when it captured nothing.
\<close>

lemma instrumented_call_order:
  assumes "db e (queries s) (''EXPLAIN '' @ qtext) params = Inr er"
    and "query_plan er = Inr plan"
    and "db e (Suc (queries s)) qtext params = Inr result"
  shows "trace (snd (call e (Instrumented rid Original) qtext params s))
       = trace s @ [Query (''EXPLAIN '' @ qtext) params, Query qtext params]
         @ written \<lparr>lvl = LInfo, message = ''Executed query: '' @ qtext,
               metrics = Some [(''query_time_ms'', num (clock e (Suc (reads s)) - clock e (reads s))),
                  (''query_cost'', JNum (case cost_match plan of None \<Rightarrow> Num 0 | Some g \<Rightarrow> parseFloat g)),
                  (''rows_returned'', num (int (rows_returned result))),
                  (''params_count'', num (int (params_count params)))],
               meta = [(''transport'', ''logs/db.log'')]\<rparr> [AccessLog, DbLog, AppLog, Console]"
  using assms
  by (simp add: split_beta Let_def logger_info_trace date_now_def)

text \<open>
  C4. The claim says that the attached cost is the maximum cost figure of the estimation
  result. For the plan line \<^verbatim>\<open>Seq Scan on users  (cost=0.00..15.00 rows=500 width=40)\<close>
  that figure is 15.00, and the pattern of the source captures \<^verbatim>\<open>0\<close>: its two unescaped
  dots consume \<^verbatim>\<open>.0\<close>, so only the last digit is left for the group. The record written
  for the call carries \<open>query_cost = 0\<close>, and so does \<open>queryComplexity\<close>. The order
  of the three steps is as the claim says.
\<close>

theorem logged_cost_differs_from_total_cost:
  "cost_match ''Seq Scan on users  (cost=0.00..15.00 rows=500 width=40)'' = Some ''0''
   \<and> spec_max_cost_figure ''Seq Scan on users  (cost=0.00..15.00 rows=500 width=40)''
       = Some ''15.00''
   \<and> parseFloat ''15.00'' = Num 15
   \<and> trace (snd (call (sample_env (1/2) db_up) (Instrumented 0 Original)
                    ''SELECT * FROM users'' None init))
       = [Query ''EXPLAIN SELECT * FROM users'' None, Query ''SELECT * FROM users'' None]
         @ written \<lparr>lvl = LInfo, message = ''Executed query: SELECT * FROM users'',
               metrics = Some [(''query_time_ms'', JNum (Num 1)), (''query_cost'', JNum (Num 0)),
                               (''rows_returned'', JNum (Num 1)), (''params_count'', JNum (Num 0))],
               meta = [(''transport'', ''logs/db.log'')]\<rparr> [AccessLog, DbLog, AppLog, Console]
   \<and> queryComplexity (snd (call (sample_env (1/2) db_up) (Instrumented 0 Original)
                    ''SELECT * FROM users'' None init)) 0 ''SELECT * FROM users'' = Some (Num 0, 1)"
proof -
  have db: "db (sample_env (1/2) db_up) k t p = Inr plan_result" for k t p
    by (simp add: sample_env_def db_up_def)
  have ck: "clock (sample_env (1/2) db_up) k = int k" for k
    by (simp add: sample_env_def)
  have rc: "rows_returned plan_result = 1"
    by (simp add: rows_returned_def plan_result_def)
  show ?thesis
    by (simp add: cost_match_sample spec_max_cost_sample parseFloat_samples split_beta Let_def
        db ck rc plan_of_plan_result logger_info_trace date_now_def num_def params_count_def
        init_def)
qed

subsection \<open>Routing of log records\<close>

text \<open>
  C5. The claim says that a record addressed to one sink is not appended to the others.
  A record logged at level info with \<^verbatim>\<open>transport: 'logs/db.log'\<close> is written to the
  access, db and app files and to the console: every transport whose level admits
  info receives it, and the \<open>transport\<close> field changes nothing.
\<close>

theorem transport_field_ignored:
  "trace (logger_info msg ms [(''transport'', ''logs/db.log'')] s)
     = trace s @ [Write AccessLog \<lparr>lvl = LInfo, message = msg, metrics = ms,
                                     meta = [(''transport'', ''logs/db.log'')]\<rparr>,
                  Write DbLog \<lparr>lvl = LInfo, message = msg, metrics = ms,
                                 meta = [(''transport'', ''logs/db.log'')]\<rparr>,
                  Write AppLog \<lparr>lvl = LInfo, message = msg, metrics = ms,
                                  meta = [(''transport'', ''logs/db.log'')]\<rparr>,
                  Write Console \<lparr>lvl = LInfo, message = msg, metrics = ms,
                                   meta = [(''transport'', ''logs/db.log'')]\<rparr>]"
  by (simp add: logger_info_trace written_def)

subsection \<open>Failures inside the wrapper\<close>

text \<open>
  C6. If the estimation call fails with \<open>err\<close>, or the estimation call succeeds with a
  readable plan and the real call fails with \<open>err\<close>, the instrumented call writes an
  error-level record tagged \<open>QUERY_ERROR\<close> (it reaches the error sink, and the four
  others), assigns \<open>originalQuery\<close> back, and fails with the same \<open>err\<close>.
\<close>

theorem query_failure_logged_and_rethrown:
  "(call e orig (''EXPLAIN '' @ qtext) params (snd (date_now e s)) = (Inl err, sa)
      \<longrightarrow> call e (Instrumented rid orig) qtext params s
            = (Inl err,
               sa\<lparr>trace := trace sa @ written \<lparr>lvl = LError,
                      message = ''Query error: '' @ err_message err,
                      metrics = Some [(''query_text'', JStr qtext),
                                      (''error_code'', JStr ''QUERY_ERROR'')],
                      meta = []\<rparr> [AccessLog, ErrorLog, DbLog, AppLog, Console],
                  pool_query := orig\<rparr>))
   \<and> (call e orig (''EXPLAIN '' @ qtext) params (snd (date_now e s)) = (Inr er, sa)
        \<and> query_plan er = Inr plan \<and> call e orig qtext params sa = (Inl err, sb)
      \<longrightarrow> call e (Instrumented rid orig) qtext params s
            = (Inl err,
               sb\<lparr>trace := trace sb @ written \<lparr>lvl = LError,
                      message = ''Query error: '' @ err_message err,
                      metrics = Some [(''query_text'', JStr qtext),
                                      (''error_code'', JStr ''QUERY_ERROR'')],
                      meta = []\<rparr> [AccessLog, ErrorLog, DbLog, AppLog, Console],
                  pool_query := orig\<rparr>))"
  by (simp add: split_beta Let_def query_catch_eq)

text \<open>
  The theorem at a database that refuses every statement, and at one that answers the
  estimation statement and refuses the real one.
\<close>

theorem query_failure_logged_and_rethrown_witness:
  "call (sample_env (1/2) db_down) (Instrumented 0 Original) ''SELECT * FROM users'' None init
     = (Inl (Error ''connect ECONNREFUSED''),
        init\<lparr>reads := 1, queries := 1,
          trace := Query ''EXPLAIN SELECT * FROM users'' None
            # written \<lparr>lvl = LError, message = ''Query error: connect ECONNREFUSED'',
                 metrics = Some [(''query_text'', JStr ''SELECT * FROM users''),
                                 (''error_code'', JStr ''QUERY_ERROR'')],
                 meta = []\<rparr> [AccessLog, ErrorLog, DbLog, AppLog, Console]\<rparr>)
   \<and> call (sample_env (1/2) db_explain_only) (Instrumented 0 Original) ''SELECT * FROM users'' None init
     = (Inl (Error ''relation \"users\" does not exist''),
        init\<lparr>reads := 1, queries := 2,
          trace := Query ''EXPLAIN SELECT * FROM users'' None
            # Query ''SELECT * FROM users'' None
            # written \<lparr>lvl = LError, message = ''Query error: relation \"users\" does not exist'',
                 metrics = Some [(''query_text'', JStr ''SELECT * FROM users''),
                                 (''error_code'', JStr ''QUERY_ERROR'')],
                 meta = []\<rparr> [AccessLog, ErrorLog, DbLog, AppLog, Console]\<rparr>)"
proof -
  let ?s0 = "snd (date_now (sample_env (1/2) db_down) init)"
  let ?s1 = "init\<lparr>reads := 1, queries := 1, trace := [Query ''EXPLAIN SELECT * FROM users'' None]\<rparr>"
  have a: "call (sample_env (1/2) db_down) Original (''EXPLAIN '' @ ''SELECT * FROM users'') None ?s0
             = (Inl (Error ''connect ECONNREFUSED''), ?s1)"
    by (simp add: sample_env_def db_down_def date_now_def init_def)
  let ?t0 = "snd (date_now (sample_env (1/2) db_explain_only) init)"
  let ?t2 = "init\<lparr>reads := 1, queries := 2, trace := [Query ''EXPLAIN SELECT * FROM users'' None,
                Query ''SELECT * FROM users'' None]\<rparr>"
  have b: "call (sample_env (1/2) db_explain_only) Original (''EXPLAIN '' @ ''SELECT * FROM users'') None ?t0
             = (Inr plan_result, ?s1)"
    by (simp add: sample_env_def db_explain_only_def date_now_def init_def)
  have c: "call (sample_env (1/2) db_explain_only) Original ''SELECT * FROM users'' None ?s1
             = (Inl (Error ''relation \"users\" does not exist''), ?t2)"
    by (simp add: sample_env_def db_explain_only_def init_def)
  from query_failure_logged_and_rethrown[of "sample_env (1/2) db_down" Original
      "''SELECT * FROM users''" None init "Error ''connect ECONNREFUSED''" ?s1 0] a
  have 1: "call (sample_env (1/2) db_down) (Instrumented 0 Original) ''SELECT * FROM users'' None init
     = (Inl (Error ''connect ECONNREFUSED''),
        ?s1\<lparr>trace := trace ?s1 @ written \<lparr>lvl = LError,
                      message = ''Query error: '' @ err_message (Error ''connect ECONNREFUSED''),
                      metrics = Some [(''query_text'', JStr ''SELECT * FROM users''),
                                      (''error_code'', JStr ''QUERY_ERROR'')],
                      meta = []\<rparr> [AccessLog, ErrorLog, DbLog, AppLog, Console],
                  pool_query := Original\<rparr>)"
    by blast
  from query_failure_logged_and_rethrown[of "sample_env (1/2) db_explain_only" Original
      "''SELECT * FROM users''" None init "Error ''relation \"users\" does not exist''" ?s1 0
      plan_result "''Seq Scan on users  (cost=0.00..15.00 rows=500 width=40)''" ?t2]
    b c plan_of_plan_result
  have 2: "call (sample_env (1/2) db_explain_only) (Instrumented 0 Original) ''SELECT * FROM users'' None init
     = (Inl (Error ''relation \"users\" does not exist''),
        ?t2\<lparr>trace := trace ?t2 @ written \<lparr>lvl = LError,
                      message = ''Query error: '' @ err_message (Error ''relation \"users\" does not exist''),
                      metrics = Some [(''query_text'', JStr ''SELECT * FROM users''),
                                      (''error_code'', JStr ''QUERY_ERROR'')],
                      meta = []\<rparr> [AccessLog, ErrorLog, DbLog, AppLog, Console],
                  pool_query := Original\<rparr>)"
    by blast
  from 1 2 show ?thesis by (simp add: init_def)
qed

subsection \<open>The access record\<close>

lemma access_records_append [simp]:
  "access_records (a @ b) = access_records a @ access_records b"
  by (simp add: access_records_def)

lemma access_records_Nil [simp]: "access_records [] = []"
  by (simp add: access_records_def)

lemma access_records_written:
  "\<not> is_access_record en \<Longrightarrow> access_records (written en sinks) = []"
  by (induction sinks) (simp_all add: written_def access_records_def)

lemma extends_refl [frame]: "extends s s"
  by (auto simp: extends_def)

lemma extends_date_now [frame]: "extends s t \<Longrightarrow> extends s (snd (date_now e t))"
  by (auto simp: extends_def date_now_def)

lemma extends_math_random [frame]: "extends s t \<Longrightarrow> extends s (snd (math_random e t))"
  by (auto simp: extends_def math_random_def)

lemma extends_inc [frame]: "extends s t \<Longrightarrow> extends s (inc_errorCounter t)"
  by (auto simp: extends_def inc_errorCounter_def)

lemma extends_logger_info [frame]:
  "extends s t \<Longrightarrow> \<not> is_access_record \<lparr>lvl = LInfo, message = msg, metrics = ms, meta = fs\<rparr>
     \<Longrightarrow> extends s (logger_info msg ms fs t)"
  by (auto simp: extends_def logger_info_trace access_records_written)

lemma extends_logger_error [frame]:
  "extends s t \<Longrightarrow> \<not> is_access_record \<lparr>lvl = LError, message = msg, metrics = ms, meta = fs\<rparr>
     \<Longrightarrow> extends s (logger_error msg ms fs t)"
  by (auto simp: extends_def logger_error_trace access_records_written)

lemma extends_query_catch [frame]: "extends s t \<Longrightarrow> extends s (query_catch qtext err t)"
  by (simp add: query_catch_def extends_logger_error is_access_record_def)

lemma extends_pool_query [frame]: "extends s t \<Longrightarrow> extends s (t\<lparr>pool_query := c\<rparr>)"
  by (auto simp: extends_def)

lemma extends_queryComplexity [frame]: "extends s t \<Longrightarrow> extends s (t\<lparr>queryComplexity := q\<rparr>)"
  by (auto simp: extends_def)

lemma extends_draws [frame]: "extends s t \<Longrightarrow> extends s (t\<lparr>draws := q\<rparr>)"
  by (auto simp: extends_def)

lemma extends_call [frame]: "extends s t \<Longrightarrow> extends s (snd (call e c qtext params t))"
proof (induction c arbitrary: qtext t)
  case Original
  then show ?case by (auto simp: extends_def access_records_def)
next
  case (Instrumented rid orig)
  note ih = Instrumented.IH
  show ?case using Instrumented.prems
    by (simp add: split_beta Let_def frame ih is_access_record_def split: sum.splits)
qed

lemma extends_insert_orders [frame]:
  "extends s t \<Longrightarrow> extends s (snd (insert_orders e os n t))"
proof (induction os arbitrary: n t)
  case Nil
  then show ?case by simp
next
  case (Cons a os)
  then show ?case
    by (simp add: split_beta frame split: sum.splits prod.splits)
qed

lemma extends_generateOrders [frame]:
  "extends s t \<Longrightarrow> extends s (snd (generateOrders e n t))"
  by (induction n arbitrary: t) (simp_all add: split_beta Let_def frame)

lemma extends_compute_loop [frame]:
  "extends s t \<Longrightarrow> extends s (snd (compute_loop e n acc t))"
  by (simp add: compute_loop_state frame)

lemma extends_users [frame]: "extends s t \<Longrightarrow> extends s (snd (users_handler e t))"
  by (simp add: users_handler_def users_catch_def split_beta Let_def frame is_access_record_def
      split: sum.splits)

lemma extends_orders [frame]: "extends s t \<Longrightarrow> extends s (snd (orders_handler e t))"
  by (simp add: orders_handler_def orders_catch_def split_beta Let_def frame is_access_record_def
      split: sum.splits)

lemma extends_filter [frame]: "extends s t \<Longrightarrow> extends s (snd (filter_handler e a t))"
  by (simp add: filter_handler_def filter_catch_def split_beta Let_def frame is_access_record_def
      split: sum.splits option.splits)

lemma extends_compute [frame]: "extends s t \<Longrightarrow> extends s (snd (compute_handler e req t))"
  by (simp add: compute_handler_def compute_catch_def split_beta Let_def frame is_access_record_def
      split: sum.splits option.splits)

lemma extends_dispatch [frame]: "extends s t \<Longrightarrow> extends s (snd (dispatch e req t))"
  by (simp add: dispatch_def metrics_handler_def frame split: route.splits)

lemma floor_nearest_double_cases:
  "floor_nearest_double x = \<lfloor>x\<rfloor> \<or> floor_nearest_double x = \<lfloor>x\<rfloor> + 1"
  by (simp add: floor_nearest_double_def Let_def)

lemma pow2_ge_91: "pow2_ge 91 = 128"
  by (simp add: pow2_ge_def bits.simps)

lemma pow2_ge_20: "pow2_ge 20 = 32"
  by (simp add: pow2_ge_def bits.simps)

lemma pow2_ge_46: "pow2_ge 46 = 64"
  by (simp add: pow2_ge_def bits.simps)

lemma networkLatency_range:
  assumes "0 \<le> r" and "r \<le> 1 - 1 / 2 ^ 53"
  shows "10 \<le> networkLatency r \<and> networkLatency r \<le> 100"
proof -
  let ?x = "r * 91"
  have x0: "0 \<le> ?x" using assms(1) by simp
  then have lo: "0 \<le> \<lfloor>?x\<rfloor>" by simp
  have xhi: "?x \<le> 91 - 91 / 2 ^ 53" using assms(2) by simp
  then have "?x < 91" by simp
  then have fl: "\<lfloor>?x\<rfloor> \<le> 90" by (simp add: floor_less_iff)
  have "floor_nearest_double ?x \<le> 90"
  proof (cases "\<lfloor>?x\<rfloor> = 90")
    case True
    have "\<not> (91 - 128 / 2 ^ 54 \<le> ?x)" using xhi by simp
    then show ?thesis
      by (simp add: floor_nearest_double_def Let_def True pow2_ge_91)
  next
    case False
    with fl have "\<lfloor>?x\<rfloor> \<le> 89" by linarith
    with floor_nearest_double_cases[of ?x] show ?thesis by auto
  qed
  moreover have "0 \<le> floor_nearest_double ?x"
    using lo floor_nearest_double_cases[of ?x] by auto
  ultimately show ?thesis by (simp add: networkLatency_def)
qed

lemma networkLatency_half: "networkLatency (1 / 2) = 55"
proof -
  have "\<lfloor>(91::rat) / 2\<rfloor> = 45" by (simp add: floor_eq_iff)
  then show ?thesis
    by (simp add: networkLatency_def floor_nearest_double_def Let_def pow2_ge_46)
qed

lemma networkLatency_rounded_up:
  "networkLatency (1979604231811207 / 2 ^ 53) = 30
   \<and> \<lfloor>91 * (1979604231811207 / 2 ^ 53 :: rat)\<rfloor> + 10 = 29"
proof -
  have f: "\<lfloor>(1979604231811207 / 2 ^ 53 :: rat) * 91\<rfloor> = 19" by (simp add: floor_eq_iff)
  then have g: "\<lfloor>91 * (1979604231811207 / 2 ^ 53 :: rat)\<rfloor> = 19" by (simp add: mult.commute)
  have "networkLatency (1979604231811207 / 2 ^ 53) = 30"
    unfolding networkLatency_def floor_nearest_double_def Let_def f
    by (simp add: pow2_ge_20)
  with g show ?thesis by simp
qed

text \<open>
  C7 (as amended). One request adds exactly one access record to the access sink. Its
  \<open>response_time_ms\<close> is a later reading of the clock minus the reading taken when the
  request arrived, so it is non-negative when the clock does not step back. Its
  \<open>network_latency_ms\<close> is the delay the request waited before anything else,
  \<^verbatim>\<open>Math.floor(r * 91) + 10\<close> on the product rounded to a double: this is
  \<open>\<lfloor>91 r\<rfloor> + 10\<close> or one more, and for a draw \<open>r\<close> between 0 and the largest double
  below 1 it lies between 10 and 100.
\<close>

theorem one_access_record_per_response:
  "\<exists>en j tl.
       access_records (trace (snd (handle_request e req s))) = access_records (trace s) @ [en]
     \<and> reads s < j
     \<and> metric en ''response_time_ms'' = Some (num (clock e j - clock e (reads s)))
     \<and> ((\<forall>i k. i \<le> k \<longrightarrow> clock e i \<le> clock e k) \<longrightarrow> 0 \<le> clock e j - clock e (reads s))
     \<and> metric en ''network_latency_ms'' = Some (num (networkLatency (rnd e (draws s))))
     \<and> trace (snd (handle_request e req s))
         = trace s @ Wait (nat (networkLatency (rnd e (draws s)))) # tl
     \<and> (networkLatency (rnd e (draws s)) = \<lfloor>91 * rnd e (draws s)\<rfloor> + 10
        \<or> networkLatency (rnd e (draws s)) = \<lfloor>91 * rnd e (draws s)\<rfloor> + 11)
     \<and> (0 \<le> rnd e (draws s) \<and> rnd e (draws s) \<le> 1 - 1 / 2 ^ 53
          \<longrightarrow> 10 \<le> networkLatency (rnd e (draws s)) \<and> networkLatency (rnd e (draws s)) \<le> 100)"
proof -
  let ?lat = "networkLatency (rnd e (draws s))"
  let ?sb = "sleep (nat ?lat) (snd (math_random e (snd (date_now e (s\<lparr>next_req := Suc (next_req s)\<rparr>)))))"
  let ?sc = "logQueryComplexity (next_req s) ?sb"
  let ?sd = "snd (dispatch e req ?sc)"
  let ?out = "fst (dispatch e req ?sc)"
  let ?status = "fst (case ?out of Responded st b \<Rightarrow> (st, b) | Escaped err \<Rightarrow> (500, DefaultErrorPage))"
  let ?d = "clock e (reads ?sd) - clock e (reads s)"
  let ?en = "\<lparr>lvl = LInfo,
             message = access_line req (utc_date e (Suc (reads ?sd))) ?status ?d,
             metrics = Some [(''response_time_ms'', num ?d),
                        (''request_size_bytes'',
                           num (int (case req_body req of None \<Rightarrow> 0 | Some b \<Rightarrow> length b))),
                        (''memory_usage_mb'', JStr (memory_usage_mb e (Suc (reads ?sd)))),
                        (''network_latency_ms'', num ?lat)], meta = []\<rparr>"
  have fin: "trace (snd (handle_request e req s))
               = trace ?sd @ written ?en [AccessLog, DbLog, AppLog, Console]"
    by (simp add: handle_request_def split_beta Let_def logger_info_trace date_now_def
        math_random_def)
  have sc: "reads ?sc = Suc (reads s)" "trace ?sc = trace s @ [Wait (nat ?lat)]"
    by (simp_all add: logQueryComplexity_def sleep_def emit_def math_random_def date_now_def)
  have "extends ?sc ?sd" by (simp add: frame)
  then obtain tl where tl: "trace ?sd = trace ?sc @ tl" "access_records tl = []"
    and rd: "reads ?sc \<le> reads ?sd"
    by (auto simp: extends_def)
  have acc: "is_access_record ?en" by (simp add: is_access_record_def)
  have "access_records (written ?en [AccessLog, DbLog, AppLog, Console]) = [?en]"
    using acc by (simp add: written_def access_records_def)
  then have 1: "access_records (trace (snd (handle_request e req s)))
                  = access_records (trace s) @ [?en]"
    using fin tl sc(2) by (simp add: access_records_def)
  have 2: "reads s < reads ?sd" using rd sc(1) by simp
  then have nonneg: "(\<forall>i k. i \<le> k \<longrightarrow> clock e i \<le> clock e k) \<longrightarrow> 0 \<le> ?d" by simp
  have 3: "metric ?en ''response_time_ms'' = Some (num ?d)"
    "metric ?en ''network_latency_ms'' = Some (num ?lat)"
    by (simp_all add: metric_def)
  have 4: "trace (snd (handle_request e req s))
             = trace s @ Wait (nat ?lat) # (tl @ written ?en [AccessLog, DbLog, AppLog, Console])"
    using fin tl sc(2) by simp
  have 5: "?lat = \<lfloor>91 * rnd e (draws s)\<rfloor> + 10 \<or> ?lat = \<lfloor>91 * rnd e (draws s)\<rfloor> + 11"
    using floor_nearest_double_cases[of "rnd e (draws s) * 91"]
    by (auto simp: networkLatency_def mult.commute)
  have 6: "0 \<le> rnd e (draws s) \<and> rnd e (draws s) \<le> 1 - 1 / 2 ^ 53
          \<longrightarrow> 10 \<le> ?lat \<and> ?lat \<le> 100"
    using networkLatency_range by blast
  from 1 2 nonneg 3 4 5 6 show ?thesis by blast
qed

text \<open>
  The theorem for \<open>GET /api/users\<close> on a fresh server, with the draw 1/2 and a clock that
  advances by one at each reading: the delay is 55.
\<close>

theorem one_access_record_per_response_witness:
  "\<exists>en j tl.
     access_records (trace (snd (handle_request (sample_env (1/2) db_up)
                                   (get ApiUsers ''/api/users'') init))) = [en]
   \<and> 0 < j \<and> metric en ''response_time_ms'' = Some (num (int j)) \<and> (0::int) \<le> int j
   \<and> metric en ''network_latency_ms'' = Some (num 55)
   \<and> trace (snd (handle_request (sample_env (1/2) db_up) (get ApiUsers ''/api/users'') init))
       = Wait 55 # tl"
proof -
  let ?e = "sample_env (1/2) db_up"
  let ?r = "get ApiUsers ''/api/users''"
  have r: "rnd ?e (draws init) = 1 / 2" by (simp add: sample_env_def)
  have m: "\<forall>i k. i \<le> k \<longrightarrow> clock ?e i \<le> clock ?e k" by (simp add: sample_env_def)
  have rng: "0 \<le> rnd ?e (draws init) \<and> rnd ?e (draws init) \<le> 1 - 1 / 2 ^ 53"
    by (simp add: r)
  have ck: "clock ?e k = int k" for k by (simp add: sample_env_def)
  have t0: "trace init = []" "reads init = 0" by (simp_all add: init_def)
  from one_access_record_per_response[of ?e ?r init]
  obtain en j tl where
    h1: "access_records (trace (snd (handle_request ?e ?r init)))
           = access_records (trace init) @ [en]"
    and hj: "reads init < j"
    and h2: "metric en ''response_time_ms'' = Some (num (clock ?e j - clock ?e (reads init)))"
    and h3: "(\<forall>i k. i \<le> k \<longrightarrow> clock ?e i \<le> clock ?e k)
               \<longrightarrow> 0 \<le> clock ?e j - clock ?e (reads init)"
    and h4: "metric en ''network_latency_ms'' = Some (num (networkLatency (rnd ?e (draws init))))"
    and h5: "trace (snd (handle_request ?e ?r init))
           = trace init @ Wait (nat (networkLatency (rnd ?e (draws init)))) # tl"
    and h6: "0 \<le> rnd ?e (draws init) \<and> rnd ?e (draws init) \<le> 1 - 1 / 2 ^ 53
          \<longrightarrow> 10 \<le> networkLatency (rnd ?e (draws init))
              \<and> networkLatency (rnd ?e (draws init)) \<le> 100"
    by blast
  from h3 m have "0 \<le> clock ?e j - clock ?e (reads init)" by blast
  from h6 rng have "10 \<le> networkLatency (rnd ?e (draws init))" by blast
  have g1: "access_records (trace (snd (handle_request ?e ?r init))) = [en]"
    using h1 by (simp add: t0)
  have g2: "metric en ''response_time_ms'' = Some (num (int j))"
    using h2 by (simp add: ck t0)
  have g4: "metric en ''network_latency_ms'' = Some (num 55)"
    using h4 by (simp only: r networkLatency_half)
  have g5: "trace (snd (handle_request ?e ?r init)) = Wait 55 # tl"
    using h5 by (simp add: t0 r networkLatency_half)
  from hj have g0: "0 < j" by (simp add: t0)
  from g0 g1 g2 g4 g5 show ?thesis by auto
qed

text \<open>
  C7 as stated says that \<open>response_time_ms\<close> is never negative and that the delay is
  \<open>\<lfloor>91 r\<rfloor> + 10\<close>. With a clock that reads 10 on arrival and 3 afterwards, and the draw
  \<open>1979604231811207 / 2^53\<close>, whose product with 91 rounds up to 20, the access record of
  \<open>GET /metrics\<close> carries \<open>response_time_ms = -7\<close> and \<open>network_latency_ms = 30\<close>, while
  \<open>\<lfloor>91 r\<rfloor> + 10 = 29\<close>.
\<close>

theorem response_time_negative_when_clock_steps_back:
  "map metrics (access_records (trace (snd (handle_request stepping_env
                                              (get Metrics ''/metrics'') init))))
     = [Some [(''response_time_ms'', num (- 7)), (''request_size_bytes'', num 0),
              (''memory_usage_mb'', JStr ''50.00''), (''network_latency_ms'', num 30)]]
   \<and> \<lfloor>91 * (1979604231811207 / 2 ^ 53 :: rat)\<rfloor> + 10 = 29"
proof -
  have e: "rnd stepping_env k = 1979604231811207 / 2 ^ 53"
    "clock stepping_env k = (if k = 0 then 10 else 3)"
    "memory_usage_mb stepping_env k = ''50.00''" for k
    by (simp_all add: stepping_env_def sample_env_def)
  have "networkLatency (1979604231811207 / 2 ^ 53) = 30"
    using networkLatency_rounded_up by blast
  then have l: "networkLatency (1979604231811207 / 9007199254740992) = 30" by simp
  have "map metrics (access_records (trace (snd (handle_request stepping_env
                                              (get Metrics ''/metrics'') init))))
     = [Some [(''response_time_ms'', num (- 7)), (''request_size_bytes'', num 0),
              (''memory_usage_mb'', JStr ''50.00''), (''network_latency_ms'', num 30)]]"
    by (simp add: handle_request_def dispatch_def metrics_handler_def get_def split_beta Let_def
        logger_info_trace date_now_def math_random_def sleep_def emit_def logQueryComplexity_def
        init_def e l written_def access_records_def is_access_record_def)
  with networkLatency_rounded_up show ?thesis by blast
qed

subsection \<open>The age parameter of /api/users/filter\<close>

text \<open>
  C8. Without an \<open>age\<close> parameter the handler answers 500 with the JSON body
  \<^verbatim>\<open>{error: 'Age query parameter is required'}\<close>, counts the error and writes the
  \<open>FILTER_ERROR\<close> record; it sends no statement. The same holds for the request as a
  whole: no statement reaches the database.
\<close>

theorem filter_without_age_rejected:
  "filter_handler e None s =
     (Responded 500 (JsonObj [(''error'', ''Age query parameter is required'')]),
      s\<lparr>errorCounter := Suc (errorCounter s),
        trace := trace s @ written \<lparr>lvl = LError,
                     message = ''Filter error: Age query parameter is required'',
                     metrics = Some [(''error_code'', JStr ''FILTER_ERROR'')], meta = []\<rparr>
                     [AccessLog, ErrorLog, DbLog, AppLog, Console]\<rparr>)
   \<and> fst (handle_request e (req\<lparr>target := ApiUsersFilter None\<rparr>) s)
       = (500, JsonObj [(''error'', ''Age query parameter is required'')])
   \<and> queries (snd (handle_request e (req\<lparr>target := ApiUsersFilter None\<rparr>) s)) = queries s
   \<and> filter is_query (trace (snd (handle_request e (req\<lparr>target := ApiUsersFilter None\<rparr>) s)))
       = filter is_query (trace s)"
  by (simp add: filter_handler_def filter_catch_eq handle_request_def dispatch_def split_beta
      Let_def logger_info_trace written_def is_query_def sleep_def emit_def
      logQueryComplexity_def date_now_def math_random_def)

text \<open>Some values of \<open>parseInt\<close> and of the rounding it applies.\<close>

lemma parseInt_samples:
  "parseInt (0xA0 # ascii ''42'') = Num 42"
  "parseInt (0xFEFF # ascii '' -0x1F'') = Num (- 31)"
  by (simp_all add: parseInt_def int_literal_def ascii_def is_space_def radix_digit_def
      hex_val_def radix_val_def to_double_def)

lemma to_double_samples:
  "to_double 9007199254740993 = Num 9007199254740992"
  "to_double 9007199254740995 = Num 9007199254740996"
  "to_double 18446744073709551615 = Num 18446744073709551616"
  by (simp_all add: to_double_def Let_def bits.simps)

lemma to_double_not_NaN: "to_double v \<noteq> NaN"
  by (simp add: to_double_def Let_def)

lemma negate_NaN: "(negate x = NaN) = (x = NaN)"
  by (cases x) simp_all

lemma parseInt_NaN_iff: "(parseInt a = NaN) = (snd (snd (int_literal a)) = [])"
  by (simp add: parseInt_def split_beta Let_def to_double_not_NaN negate_NaN)

lemma parseInt_abc: "parseInt (ascii ''abc'') = NaN"
  by (simp add: parseInt_def int_literal_def ascii_def is_space_def radix_digit_def hex_val_def)

lemma parseInt_12abc: "parseInt (ascii ''12abc'') = Num 12"
  by (simp add: parseInt_def int_literal_def ascii_def is_space_def radix_digit_def hex_val_def
      radix_val_def to_double_def)

lemma wrapper_estimates_first:
  "\<exists>tl. trace (snd (call e (Instrumented r Original) qtext params s))
          = trace s @ Query (''EXPLAIN '' @ qtext) params # tl"
  by (simp add: split_beta Let_def query_catch_eq logger_info_trace date_now_def
      split: sum.splits)

lemma empty_age_is_missing_age: "filter_handler e (Some []) s = filter_handler e None s"
  by (simp add: filter_handler_def)

lemma filter_request_first_statement:
  assumes "a \<noteq> []" and "pool_query s = Original"
  shows "\<exists>tl. trace (snd (handle_request e (req\<lparr>target := ApiUsersFilter (Some a)\<rparr>) s))
            = trace s @ Wait (nat (networkLatency (rnd e (draws s))))
              # Query (''EXPLAIN '' @ filter_sql) (Some [JNum (parseInt a)]) # tl"
proof -
  let ?sc = "logQueryComplexity (next_req s)
     (sleep (nat (networkLatency (rnd e (draws s))))
        (snd (math_random e (snd (date_now e (s\<lparr>next_req := Suc (next_req s)\<rparr>))))))"
  let ?sd = "snd (date_now e ?sc)"
  have sd: "pool_query ?sd = Instrumented (next_req s) Original"
    "trace ?sd = trace s @ [Wait (nat (networkLatency (rnd e (draws s))))]"
    using assms(2)
    by (simp_all add: logQueryComplexity_def sleep_def emit_def math_random_def date_now_def)
  from wrapper_estimates_first[of e "next_req s" filter_sql "Some [JNum (parseInt a)]" ?sd]
  obtain tl where c: "trace (snd (call e (Instrumented (next_req s) Original) filter_sql
                        (Some [JNum (parseInt a)]) ?sd))
      = trace ?sd @ Query (''EXPLAIN '' @ filter_sql) (Some [JNum (parseInt a)]) # tl"
    by blast
  have "\<exists>tl'. trace (snd (filter_handler e (Some a) ?sc))
      = trace ?sd @ Query (''EXPLAIN '' @ filter_sql) (Some [JNum (parseInt a)]) # tl'"
    using assms(1) sd(1) c
    by (simp add: filter_handler_def filter_catch_eq split_beta Let_def logger_info_trace
        math_random_def del: call.simps split: sum.splits)
       (simp add: date_now_def)
  then obtain tl' where h: "trace (snd (filter_handler e (Some a) ?sc))
      = trace ?sd @ Query (''EXPLAIN '' @ filter_sql) (Some [JNum (parseInt a)]) # tl'"
    by blast
  have "\<exists>w. trace (snd (handle_request e (req\<lparr>target := ApiUsersFilter (Some a)\<rparr>) s))
      = trace (snd (filter_handler e (Some a) ?sc)) @ w"
    by (simp add: handle_request_def dispatch_def split_beta Let_def logger_info_trace
        date_now_def math_random_def del: call.simps)
  then show ?thesis using h sd(2) by auto
qed

text \<open>
  C10 (as amended). If \<open>age\<close> is present and not empty, the handler does not stop at the
  check for a missing parameter: the first thing it adds to the trace is a statement
  ending in the filter query, with the single parameter \<open>parseInt(age)\<close>; for a request
  that arrives with the driver's method in the slot this is the estimation statement,
  sent right after the injected delay. The parameter is \<open>NaN\<close> exactly when \<open>parseInt\<close>
  finds no digit after white space, sign and prefix.
\<close>

theorem nonempty_age_reaches_database:
  assumes "a \<noteq> []"
  shows "(\<exists>pre tl. trace (snd (filter_handler e (Some a) s))
                     = trace s @ Query (pre @ filter_sql) (Some [JNum (parseInt a)]) # tl)
       \<and> (pool_query s = Original \<longrightarrow>
            (\<exists>tl. trace (snd (handle_request e (req\<lparr>target := ApiUsersFilter (Some a)\<rparr>) s))
                = trace s @ Wait (nat (networkLatency (rnd e (draws s))))
                  # Query (''EXPLAIN '' @ filter_sql) (Some [JNum (parseInt a)]) # tl))
       \<and> (parseInt a = NaN) = (snd (snd (int_literal a)) = [])"
proof -
  let ?sa = "snd (date_now e s)"
  from call_first_statement[of e "pool_query ?sa" filter_sql "Some [JNum (parseInt a)]" ?sa]
  obtain pre tl where 1: "trace (snd (call e (pool_query ?sa) filter_sql
        (Some [JNum (parseInt a)]) ?sa))
       = trace s @ Query (pre @ filter_sql) (Some [JNum (parseInt a)]) # tl"
    by (auto simp: date_now_def)
  have "\<exists>tl'. trace (snd (filter_handler e (Some a) s))
                     = trace s @ Query (pre @ filter_sql) (Some [JNum (parseInt a)]) # tl'"
    using assms 1
    by (simp add: filter_handler_def filter_catch_eq split_beta Let_def logger_info_trace
        date_now_def math_random_def del: call.simps split: sum.splits)
  then have A: "\<exists>pre tl. trace (snd (filter_handler e (Some a) s))
                     = trace s @ Query (pre @ filter_sql) (Some [JNum (parseInt a)]) # tl"
    by blast
  from A filter_request_first_statement[OF assms] parseInt_NaN_iff show ?thesis by blast
qed

text \<open>The theorem for \<^verbatim>\<open>age=abc\<close> on a fresh server: the parameter is \<open>NaN\<close>.\<close>

theorem nonempty_age_reaches_database_witness:
  "parseInt (ascii ''abc'') = NaN
   \<and> (\<exists>tl. trace (snd (handle_request (sample_env (1/2) db_up)
                (get (ApiUsersFilter (Some (ascii ''abc''))) ''/api/users/filter?age=abc'') init))
            = Wait 55 # Query (''EXPLAIN '' @ filter_sql) (Some [JNum NaN]) # tl)"
proof -
  let ?e = "sample_env (1/2) db_up"
  let ?req = "get (ApiUsersFilter (Some (ascii ''abc''))) ''/api/users/filter?age=abc''"
  have n: "ascii ''abc'' \<noteq> []" by (simp add: ascii_def)
  have o: "pool_query init = Original" by (simp add: init_def)
  have r: "?req\<lparr>target := ApiUsersFilter (Some (ascii ''abc''))\<rparr> = ?req" by (simp add: get_def)
  have l: "networkLatency (rnd ?e (draws init)) = 55"
    by (simp add: sample_env_def networkLatency_half)
  from nonempty_age_reaches_database[OF n, of ?e init ?req] o
  obtain tl where "trace (snd (handle_request ?e (?req\<lparr>target := ApiUsersFilter (Some (ascii ''abc''))\<rparr>) init))
      = trace init @ Wait (nat (networkLatency (rnd ?e (draws init))))
        # Query (''EXPLAIN '' @ filter_sql) (Some [JNum (parseInt (ascii ''abc''))]) # tl"
    by blast
  then have "trace (snd (handle_request ?e ?req init))
      = Wait 55 # Query (''EXPLAIN '' @ filter_sql) (Some [JNum NaN]) # tl"
    by (simp only: r l parseInt_abc) (simp add: init_def)
  with parseInt_abc show ?thesis by blast
qed

text \<open>
  C10 as stated says that an age that is present but not a number is sent as \<open>NaN\<close>.
  \<^verbatim>\<open>age=12abc\<close> is not a number, and on a fresh server it is sent as 12.
\<close>

theorem numeric_prefix_age_sent_as_number:
  "take 2 (trace (snd (handle_request (sample_env (1/2) db_up)
             (get (ApiUsersFilter (Some (ascii ''12abc''))) ''/api/users/filter?age=12abc'') init)))
     = [Wait 55, Query (''EXPLAIN '' @ filter_sql) (Some [JNum (Num 12)])]"
proof -
  let ?e = "sample_env (1/2) db_up"
  let ?req = "get (ApiUsersFilter (Some (ascii ''12abc''))) ''/api/users/filter?age=12abc''"
  have n: "ascii ''12abc'' \<noteq> []" by (simp add: ascii_def)
  have o: "pool_query init = Original" by (simp add: init_def)
  have r: "?req\<lparr>target := ApiUsersFilter (Some (ascii ''12abc''))\<rparr> = ?req" by (simp add: get_def)
  have l: "networkLatency (rnd ?e (draws init)) = 55"
    by (simp add: sample_env_def networkLatency_half)
  from filter_request_first_statement[OF n o, of ?e ?req]
  obtain tl where "trace (snd (handle_request ?e (?req\<lparr>target := ApiUsersFilter (Some (ascii ''12abc''))\<rparr>) init))
      = trace init @ Wait (nat (networkLatency (rnd ?e (draws init))))
        # Query (''EXPLAIN '' @ filter_sql) (Some [JNum (parseInt (ascii ''12abc''))]) # tl"
    by blast
  then have "trace (snd (handle_request ?e ?req init))
      = Wait 55 # Query (''EXPLAIN '' @ filter_sql) (Some [JNum (Num 12)]) # tl"
    by (simp only: r l parseInt_12abc) (simp add: init_def)
  then show ?thesis by simp
qed

subsection \<open>The readiness gate\<close>













end
